theory Spec2Isabelle
  imports Complex_Main "HOL-Library.AList" "HOL-Library.Monad_Syntax"
begin

section \<open>Time and the JavaScript Date built-ins\<close>

text \<open>
  A \<open>Date\<close> is its \<open>getTime()\<close> value: milliseconds since 1970-01-01T00:00:00Z.
  The handlers run with the process time zone UTC, so \<open>getFullYear\<close>,
  \<open>new Date(year, 0, 1)\<close> and their UTC variants coincide. The proleptic Gregorian
  calendar is the usual days/civil-date conversion.
\<close>

type_synonym timestamp = int

definition MS_PER_DAY :: int where
  "MS_PER_DAY = 24 * 60 * 60 * 1000"

definition days_from_civil :: "int \<Rightarrow> int \<Rightarrow> int \<Rightarrow> int" where
  "days_from_civil y0 m d =
     (let y = (if m \<le> 2 then y0 - 1 else y0);
          era = y div 400;
          yoe = y mod 400;
          doy = (153 * (if m > 2 then m - 3 else m + 9) + 2) div 5 + d - 1;
          doe = yoe * 365 + yoe div 4 - yoe div 100 + doy
      in era * 146097 + doe - 719468)"

definition civil_from_days :: "int \<Rightarrow> int \<times> int \<times> int" where
  "civil_from_days z0 =
     (let z = z0 + 719468;
          era = z div 146097;
          doe = z mod 146097;
          yoe = (doe - doe div 1460 + doe div 36524 - doe div 146096) div 365;
          doy = doe - (365 * yoe + yoe div 4 - yoe div 100);
          mp = (5 * doy + 2) div 153;
          d = doy - (153 * mp + 2) div 5 + 1;
          m = (if mp < 10 then mp + 3 else mp - 9);
          y = yoe + era * 400
      in (if m \<le> 2 then y + 1 else y, m, d))"

text \<open>\<open>date.getFullYear()\<close>.\<close>

definition getFullYear :: "timestamp \<Rightarrow> int" where
  "getFullYear date = fst (civil_from_days (date div MS_PER_DAY))"

text \<open>\<open>new Date(year, 0, 1).getTime()\<close>, midnight of January 1st.\<close>

definition startOfYearTime :: "int \<Rightarrow> timestamp" where
  "startOfYearTime y = days_from_civil y 1 1 * MS_PER_DAY"

text \<open>\<open>Math.ceil(a / b)\<close> for an integer \<open>a\<close> and a positive integer \<open>b\<close>.\<close>

definition ceil_div :: "int \<Rightarrow> int \<Rightarrow> int" where
  "ceil_div a b = - ((- a) div b)"

section \<open>Week calculation helpers (lib/api-helpers)\<close>

record WeekInfo =
  year :: int
  weekNumber :: int

text \<open>\<open>getWeekInfo(date)\<close>: the calendar year of the date and the seventh of its
  day of the year, rounded up.\<close>

definition getWeekInfo :: "timestamp \<Rightarrow> WeekInfo" where
  "getWeekInfo date =
     (let y = getFullYear date;
          startOfYear = startOfYearTime y;
          dayOfYear = (date - startOfYear) div MS_PER_DAY + 1;
          wn = ceil_div dayOfYear 7
      in \<lparr>year = y, weekNumber = wn\<rparr>)"

text \<open>\<open>getCurrentWeekInfo()\<close> has the same body, on \<open>now = new Date()\<close>.\<close>

definition getCurrentWeekInfo :: "timestamp \<Rightarrow> WeekInfo" where
  "getCurrentWeekInfo now =
     (let y = getFullYear now;
          startOfYear = startOfYearTime y;
          dayOfYear = (now - startOfYear) div MS_PER_DAY + 1;
          wn = ceil_div dayOfYear 7
      in \<lparr>year = y, weekNumber = wn\<rparr>)"

text \<open>\<open>getISOWeek(date)\<close> of the dashboard's report mapper: the week of the Thursday
  of the date's week, counted in that Thursday's year. \<open>getUTCDay\<close> is 0 on Sunday;
  1970-01-01 was a Thursday.\<close>

definition getUTCDay :: "timestamp \<Rightarrow> int" where
  "getUTCDay t = (t div MS_PER_DAY + 4) mod 7"

definition getISOWeek :: "timestamp \<Rightarrow> int" where
  "getISOWeek date =
     (let tmp0 = (date div MS_PER_DAY) * MS_PER_DAY;
          dayNum = (if getUTCDay tmp0 = 0 then 7 else getUTCDay tmp0);
          tmp = tmp0 + (4 - dayNum) * MS_PER_DAY;
          yearStart = startOfYearTime (getFullYear tmp)
      in ceil_div ((tmp - yearStart) div MS_PER_DAY + 1) 7)"

text \<open>ISO 8601 week numbering, as the specification names it: weeks start on Monday,
  week 1 of a year is the week holding its first Thursday, and the week's year is the
  year of its Thursday.\<close>

definition iso8601_week_info :: "timestamp \<Rightarrow> WeekInfo" where
  "iso8601_week_info t =
     (let days = t div MS_PER_DAY;
          weekday = (days + 3) mod 7;
          thursday = days - weekday + 3;
          isoYear = fst (civil_from_days thursday);
          wn = (thursday - days_from_civil isoYear 1 1) div 7 + 1
      in \<lparr>year = isoYear, weekNumber = wn\<rparr>)"

section \<open>Errors and request bodies\<close>

text \<open>
  A handler either throws or returns. \<open>ApiException\<close> carries the status code and the
  error message; a failed schema parse throws \<open>ZodError\<close>, which the route wrapper
  \<open>createApiRoute\<close> answers with status 400 and the message "Validation error".
\<close>

datatype api_error = ApiException nat string | ZodError

fun statusCode :: "api_error \<Rightarrow> nat" where
  "statusCode (ApiException c m) = c"
| "statusCode ZodError = 400"

text \<open>A parsed JSON request body. Numbers are rationals: the schemas only compare
  them with bounds and test them for being whole.\<close>

datatype json = JNull | JBool bool | JNum rat | JStr string
  | JArr "json list" | JObj "(string \<times> json) list"

text \<open>Property access on a parsed object: a repeated key keeps its last value; an
  absent key reads as \<open>undefined\<close>, here \<open>None\<close>.\<close>

fun json_get :: "json \<Rightarrow> string \<Rightarrow> json option" where
  "json_get (JObj kvs) k = map_of (rev kvs) k"
| "json_get _ k = None"

fun is_object :: "json \<Rightarrow> bool" where
  "is_object (JObj kvs) = True"
| "is_object _ = False"

text \<open>The field schemas. The outer \<open>option\<close> is the parse (\<open>None\<close>: an issue is
  raised), the inner one the optional field (\<open>None\<close>: \<open>undefined\<close>).

  \<^item> \<open>z.number().min(0).max(mx).optional()\<close>
  \<^item> \<open>z.number().int().min(lo).max(hi)\<close>, optional or required
  \<^item> \<open>z.string().max(n).optional()\<close>\<close>

fun zod_number_optional :: "rat \<Rightarrow> json option \<Rightarrow> rat option option" where
  "zod_number_optional mx None = Some None"
| "zod_number_optional mx (Some (JNum x)) = (if 0 \<le> x \<and> x \<le> mx then Some (Some x) else None)"
| "zod_number_optional mx (Some _) = None"

definition is_whole :: "rat \<Rightarrow> bool" where
  "is_whole x = (of_int \<lfloor>x\<rfloor> = x)"

fun zod_int :: "int \<Rightarrow> int \<Rightarrow> json option \<Rightarrow> int option" where
  "zod_int lo hi (Some (JNum x)) =
     (if is_whole x \<and> of_int lo \<le> x \<and> x \<le> of_int hi then Some \<lfloor>x\<rfloor> else None)"
| "zod_int lo hi _ = None"

fun zod_int_optional :: "int \<Rightarrow> int \<Rightarrow> json option \<Rightarrow> int option option" where
  "zod_int_optional lo hi None = Some None"
| "zod_int_optional lo hi (Some v) = map_option Some (zod_int lo hi (Some v))"

fun zod_string_optional :: "nat \<Rightarrow> json option \<Rightarrow> string option option" where
  "zod_string_optional n None = Some None"
| "zod_string_optional n (Some (JStr s)) = (if length s \<le> n then Some (Some s) else None)"
| "zod_string_optional n (Some _) = None"

text \<open>The parsed body of a report submission or edit.\<close>

record ReportData =
  d_weight :: "rat option"
  d_waist :: "rat option"
  d_chest :: "rat option"
  d_biceps_left :: "rat option"
  d_biceps_right :: "rat option"
  d_thigh_left :: "rat option"
  d_thigh_right :: "rat option"
  d_cardio_days :: "int option"
  d_note :: "string option"

definition SubmitReportSchema :: "json \<Rightarrow> ReportData option" where
  "SubmitReportSchema body =
     (if \<not> is_object body then None else
      do {
        w \<leftarrow> zod_number_optional 1000 (json_get body ''weight'');
        wa \<leftarrow> zod_number_optional 500 (json_get body ''waist'');
        ch \<leftarrow> zod_number_optional 500 (json_get body ''chest'');
        bl \<leftarrow> zod_number_optional 200 (json_get body ''biceps_left'');
        br \<leftarrow> zod_number_optional 200 (json_get body ''biceps_right'');
        tl \<leftarrow> zod_number_optional 300 (json_get body ''thigh_left'');
        tr \<leftarrow> zod_number_optional 300 (json_get body ''thigh_right'');
        cd \<leftarrow> zod_int_optional 0 7 (json_get body ''cardio_days'');
        n \<leftarrow> zod_string_optional 1000 (json_get body ''note'');
        Some \<lparr>d_weight = w, d_waist = wa, d_chest = ch, d_biceps_left = bl,
              d_biceps_right = br, d_thigh_left = tl, d_thigh_right = tr,
              d_cardio_days = cd, d_note = n\<rparr>
      })"

definition EditReportSchema :: "json \<Rightarrow> ReportData option" where
  "EditReportSchema body =
     (if \<not> is_object body then None else
      do {
        w \<leftarrow> zod_number_optional 1000 (json_get body ''weight'');
        wa \<leftarrow> zod_number_optional 500 (json_get body ''waist'');
        ch \<leftarrow> zod_number_optional 500 (json_get body ''chest'');
        bl \<leftarrow> zod_number_optional 200 (json_get body ''biceps_left'');
        br \<leftarrow> zod_number_optional 200 (json_get body ''biceps_right'');
        tl \<leftarrow> zod_number_optional 300 (json_get body ''thigh_left'');
        tr \<leftarrow> zod_number_optional 300 (json_get body ''thigh_right'');
        cd \<leftarrow> zod_int_optional 0 7 (json_get body ''cardio_days'');
        n \<leftarrow> zod_string_optional 1000 (json_get body ''note'');
        Some \<lparr>d_weight = w, d_waist = wa, d_chest = ch, d_biceps_left = bl,
              d_biceps_right = br, d_thigh_left = tl, d_thigh_right = tr,
              d_cardio_days = cd, d_note = n\<rparr>
      })"




section \<open>The stored tables\<close>

text \<open>
  Identifiers are path parameters that already passed \<open>UuidParamSchema\<close>. The store is
  the tables the handlers query. \<open>users\<close> and \<open>trainer_client\<close> are only ever
  queried by their full primary key (\<open>id\<close>, and \<open>(trainer_id, client_id)\<close>), so
  they are maps from the key; \<open>reports\<close> and \<open>report_images\<close> are lists of rows.
  The extension tables \<open>trainers\<close> and \<open>clients\<close> are the ids they hold: the handlers
  never read them, but \<open>trainer_client\<close> and \<open>reports\<close> refer to them by foreign key,
  and a \<open>users\<close> row can be without its extension row (the role of a user can be
  changed in \<open>users\<close> alone).
  A query that fails for reasons outside the tables (a lost connection) and the row-level
  security policies are not part of this model: a query answers from the rows. A
  measurement column holds the number it was given; the scale of \<open>numeric(6,2)\<close> is
  not modelled.
\<close>

type_synonym uuid = string

datatype role = super_admin | trainer | client

record AuthenticatedUser =
  au_id :: uuid
  au_role :: role

record user_row =
  u_role :: role
  u_deleted_at :: "timestamp option"

record assignment_row =
  started_at :: timestamp
  is_active :: bool

record report_row =
  r_id :: uuid
  r_client_id :: uuid
  r_created_at :: timestamp
  r_week_number :: int
  r_year :: int
  r_sequence :: int
  r_weight :: "rat option"
  r_waist :: "rat option"
  r_chest :: "rat option"
  r_biceps_left :: "rat option"
  r_biceps_right :: "rat option"
  r_thigh_left :: "rat option"
  r_thigh_right :: "rat option"
  r_cardio_days :: "int option"
  r_note :: "string option"
  r_deleted_at :: "timestamp option"

record image_row =
  i_id :: uuid
  i_report_id :: uuid
  i_storage_path :: string
  i_size_bytes :: int
  i_width :: "int option"
  i_height :: "int option"
  i_created_at :: timestamp
  i_is_deleted :: bool
  i_deleted_at :: "timestamp option"

record db =
  users :: "uuid \<rightharpoonup> user_row"
  trainers :: "uuid list"
  clients :: "uuid list"
  trainer_client :: "uuid \<times> uuid \<rightharpoonup> assignment_row"
  reports :: "report_row list"
  report_images :: "image_row list"

type_synonym ReportDTO = "report_row \<times> image_row list"

type_synonym TrainerClientAssignmentDTO = "uuid \<times> uuid \<times> assignment_row"

text \<open>\<open>.single()\<close>: the row when the query returns exactly one, otherwise no data.\<close>

definition single :: "'a list \<Rightarrow> 'a option" where
  "single xs = (case xs of [x] \<Rightarrow> Some x | _ \<Rightarrow> None)"

text \<open>\<open>from("users").eq("id", i).eq("role", r).is("deleted_at", null).single()\<close>
  returns a row.\<close>

definition userExists :: "db \<Rightarrow> uuid \<Rightarrow> role \<Rightarrow> bool" where
  "userExists d i r =
     (case users d i of None \<Rightarrow> False | Some u \<Rightarrow> u_role u = r \<and> u_deleted_at u = None)"

text \<open>\<open>from("trainer_client").eq("trainer_id", t).eq("client_id", c).eq("is_active", true)
  .single()\<close> returns a row.\<close>

definition activeAssignment :: "db \<Rightarrow> uuid \<Rightarrow> uuid \<Rightarrow> bool" where
  "activeAssignment d trainerId clientId =
     (case trainer_client d (trainerId, clientId) of None \<Rightarrow> False | Some a \<Rightarrow> is_active a)"

text \<open>\<open>from("reports").eq("id", reportId).is("deleted_at", null).single()\<close>.\<close>

definition fetchReport :: "db \<Rightarrow> uuid \<Rightarrow> report_row option" where
  "fetchReport d reportId =
     single (filter (\<lambda>r. r_id r = reportId \<and> r_deleted_at r = None) (reports d))"

text \<open>\<open>from("report_images").eq("report_id", reportId).eq("is_deleted", false)\<close>, and
  the same ordered by \<open>created_at\<close> ascending.\<close>

definition existingImages :: "db \<Rightarrow> uuid \<Rightarrow> image_row list" where
  "existingImages d reportId =
     filter (\<lambda>i. i_report_id i = reportId \<and> \<not> i_is_deleted i) (report_images d)"

definition fetchImages :: "db \<Rightarrow> uuid \<Rightarrow> image_row list" where
  "fetchImages d reportId = sort_key i_created_at (existingImages d reportId)"

section \<open>The reports table's trigger and constraints (migration)\<close>

text \<open>
  \<open>set_report_week_and_year\<close> runs before every insert and overwrites the two columns:
  \<open>week_number := extract(week from created_at)\<close>, the ISO 8601 week of the date, and
  \<open>year := extract(year from created_at)\<close>, its calendar year (session time zone UTC).
\<close>

definition pg_extract_week :: "timestamp \<Rightarrow> int" where
  "pg_extract_week t =
     (let days = t div MS_PER_DAY;
          thursday = days - (days + 3) mod 7 + 3
      in (thursday - days_from_civil (fst (civil_from_days thursday)) 1 1) div 7 + 1)"

definition pg_extract_year :: "timestamp \<Rightarrow> int" where
  "pg_extract_year t = fst (civil_from_days (t div MS_PER_DAY))"

definition set_report_week_and_year :: "report_row \<Rightarrow> report_row" where
  "set_report_week_and_year new =
     new\<lparr>r_week_number := pg_extract_week (r_created_at new),
         r_year := pg_extract_year (r_created_at new)\<rparr>"

text \<open>An insert into \<open>reports\<close>: the trigger, then the primary key, the foreign key
  \<open>client_id references clients(id)\<close>, the
  \<open>unique (client_id, week_number, year, sequence)\<close> constraint, which has no condition
  on \<open>deleted_at\<close>, and \<open>check (sequence in (0, 1))\<close>. \<open>None\<close> is the insert error.
  The result is the stored row, as \<open>.select().single()\<close> returns it.\<close>

definition same_report_key :: "report_row \<Rightarrow> report_row \<Rightarrow> bool" where
  "same_report_key a b =
     (r_client_id a = r_client_id b \<and> r_week_number a = r_week_number b
      \<and> r_year a = r_year b \<and> r_sequence a = r_sequence b)"

definition reports_insert :: "db \<Rightarrow> report_row \<Rightarrow> (report_row \<times> report_row list) option" where
  "reports_insert d row =
     (let new = set_report_week_and_year row; rows = reports d in
      if list_ex (\<lambda>x. r_id x = r_id new) rows then None
      else if r_client_id new \<notin> set (clients d) then None
      else if list_ex (same_report_key new) rows then None
      else if r_sequence new \<noteq> 0 \<and> r_sequence new \<noteq> 1 then None
      else Some (new, rows @ [new]))"

text \<open>\<open>update(...).eq("id", reportId).select().single()\<close>: the changed row, when
  exactly one row has the id.\<close>

definition reports_update_single :: "report_row list \<Rightarrow> uuid \<Rightarrow> (report_row \<Rightarrow> report_row) \<Rightarrow> (report_row \<times> report_row list) option" where
  "reports_update_single rows reportId f =
     (case single (filter (\<lambda>r. r_id r = reportId) rows) of
        None \<Rightarrow> None
      | Some r \<Rightarrow> Some (f r, map (\<lambda>x. if r_id x = reportId then f x else x) rows))"

section \<open>Report handlers\<close>

text \<open>\<open>requireAuth\<close> throws 401 without a user; in the handlers below this is the
  first case of each definition.\<close>

definition Unauthenticated :: api_error where
  "Unauthenticated = ApiException 401 ''Authentication required''"

text \<open>\<open>value || null\<close> on an optional number and on an optional string: \<open>undefined\<close>,
  \<open>0\<close> and the empty string are falsy.\<close>

fun or_null :: "'a::zero option \<Rightarrow> 'a option" where
  "or_null None = None"
| "or_null (Some x) = (if x = 0 then None else Some x)"

fun or_null_str :: "string option \<Rightarrow> string option" where
  "or_null_str None = None"
| "or_null_str (Some s) = (if s = [] then None else Some s)"

text \<open>\<open>POST /api/clients/{clientId}/reports\<close>. \<open>now\<close> is the clock, read by
  \<open>getCurrentWeekInfo\<close> and by the \<open>created_at\<close> default; \<open>reportId\<close> is the
  value of \<open>crypto.randomUUID()\<close>.\<close>

definition client_reports_POST ::
  "db \<Rightarrow> timestamp \<Rightarrow> uuid \<Rightarrow> AuthenticatedUser option \<Rightarrow> uuid \<Rightarrow> json
    \<Rightarrow> api_error + (ReportDTO \<times> db)" where
  "client_reports_POST d now reportId user clientId body =
     (case user of
        None \<Rightarrow> Inl Unauthenticated
      | Some authenticatedUser \<Rightarrow>
          if au_role authenticatedUser \<noteq> client \<or> au_id authenticatedUser \<noteq> clientId
          then Inl (ApiException 403 ''Access denied. Only clients can submit their own reports.'')
          else if \<not> userExists d clientId client
          then Inl (ApiException 404 ''Client not found'')
          else
            (case SubmitReportSchema body of
               None \<Rightarrow> Inl ZodError
             | Some reportData \<Rightarrow>
                 (let wi = getCurrentWeekInfo now;
                      existingReports =
                        filter (\<lambda>r. r_client_id r = clientId \<and> r_year r = year wi
                                  \<and> r_week_number r = weekNumber wi \<and> r_deleted_at r = None)
                          (reports d)
                  in if length existingReports \<ge> 2
                     then Inl (ApiException 409 ''Maximum 2 reports per week exceeded'')
                     else
                       (case reports_insert d
                               \<lparr>r_id = reportId, r_client_id = clientId, r_created_at = now,
                                r_week_number = weekNumber wi, r_year = year wi,
                                r_sequence = int (length existingReports),
                                r_weight = or_null (d_weight reportData),
                                r_waist = or_null (d_waist reportData),
                                r_chest = or_null (d_chest reportData),
                                r_biceps_left = or_null (d_biceps_left reportData),
                                r_biceps_right = or_null (d_biceps_right reportData),
                                r_thigh_left = or_null (d_thigh_left reportData),
                                r_thigh_right = or_null (d_thigh_right reportData),
                                r_cardio_days = or_null (d_cardio_days reportData),
                                r_note = or_null_str (d_note reportData),
                                r_deleted_at = None\<rparr> of
                          None \<Rightarrow> Inl (ApiException 500 ''Failed to create report'')
                        | Some (newReport, rows) \<Rightarrow>
                            Inr ((newReport, []), d\<lparr>reports := rows\<rparr>)))))"

text \<open>\<open>checkReportAccess\<close> of \<open>/api/reports/{reportId}\<close>: the report is fetched
  first; without it there is no access for anyone.\<close>

definition checkReportAccess :: "db \<Rightarrow> uuid \<Rightarrow> role \<Rightarrow> uuid \<Rightarrow> bool \<times> uuid option" where
  "checkReportAccess d userId userRole reportId =
     (case fetchReport d reportId of
        None \<Rightarrow> (False, None)
      | Some report \<Rightarrow>
          (let clientId = r_client_id report in
           if userRole = super_admin then (True, Some clientId)
           else if userRole = client \<and> userId = clientId then (True, Some clientId)
           else if userRole = trainer then (activeAssignment d userId clientId, Some clientId)
           else (False, None)))"

text \<open>\<open>canEditReport(createdAt, sequence)\<close>, with the clock as \<open>now\<close>.\<close>

definition canEditReport :: "timestamp \<Rightarrow> timestamp \<Rightarrow> int \<Rightarrow> bool" where
  "canEditReport now createdAt sequence =
     (if sequence \<noteq> 0 then False
      else (let oneHourAgo = now - 60 * 60 * 1000 in createdAt > oneHourAgo))"

text \<open>\<open>GET /api/reports/{reportId}\<close>.\<close>

definition reports_GET :: "db \<Rightarrow> AuthenticatedUser option \<Rightarrow> uuid \<Rightarrow> api_error + ReportDTO" where
  "reports_GET d user reportId =
     (case user of
        None \<Rightarrow> Inl Unauthenticated
      | Some authenticatedUser \<Rightarrow>
          if \<not> fst (checkReportAccess d (au_id authenticatedUser) (au_role authenticatedUser) reportId)
          then Inl (ApiException 403 ''Access denied. You can only view your own reports, your assigned clients' reports, or be a super admin.'')
          else
            (case fetchReport d reportId of
               None \<Rightarrow> Inl (ApiException 404 ''Report not found'')
             | Some report \<Rightarrow> Inr (report, fetchImages d reportId)))"

text \<open>The fields of an edit that are not \<open>undefined\<close>, and the update they make: a field
  that is \<open>undefined\<close> is not sent, so its column keeps its value.\<close>

definition updateFields :: "ReportData \<Rightarrow> string list" where
  "updateFields u =
     (if d_weight u = None then [] else [''weight'']) @
     (if d_waist u = None then [] else [''waist'']) @
     (if d_chest u = None then [] else [''chest'']) @
     (if d_biceps_left u = None then [] else [''biceps_left'']) @
     (if d_biceps_right u = None then [] else [''biceps_right'']) @
     (if d_thigh_left u = None then [] else [''thigh_left'']) @
     (if d_thigh_right u = None then [] else [''thigh_right'']) @
     (if d_cardio_days u = None then [] else [''cardio_days'']) @
     (if d_note u = None then [] else [''note''])"

fun set_if_defined :: "'a option \<Rightarrow> 'a option \<Rightarrow> 'a option" where
  "set_if_defined None old = old"
| "set_if_defined (Some v) old = Some v"

definition report_update :: "ReportData \<Rightarrow> report_row \<Rightarrow> report_row" where
  "report_update u r =
     r\<lparr>r_weight := set_if_defined (d_weight u) (r_weight r),
       r_waist := set_if_defined (d_waist u) (r_waist r),
       r_chest := set_if_defined (d_chest u) (r_chest r),
       r_biceps_left := set_if_defined (d_biceps_left u) (r_biceps_left r),
       r_biceps_right := set_if_defined (d_biceps_right u) (r_biceps_right r),
       r_thigh_left := set_if_defined (d_thigh_left u) (r_thigh_left r),
       r_thigh_right := set_if_defined (d_thigh_right u) (r_thigh_right r),
       r_cardio_days := set_if_defined (d_cardio_days u) (r_cardio_days r),
       r_note := set_if_defined (d_note u) (r_note r)\<rparr>"

text \<open>\<open>PATCH /api/reports/{reportId}\<close>.\<close>

definition reports_PATCH ::
  "db \<Rightarrow> timestamp \<Rightarrow> AuthenticatedUser option \<Rightarrow> uuid \<Rightarrow> json \<Rightarrow> api_error + (ReportDTO \<times> db)" where
  "reports_PATCH d now user reportId body =
     (case user of
        None \<Rightarrow> Inl Unauthenticated
      | Some authenticatedUser \<Rightarrow>
          if \<not> fst (checkReportAccess d (au_id authenticatedUser) (au_role authenticatedUser) reportId)
          then Inl (ApiException 403 ''Access denied. You can only edit your own reports, your assigned clients' reports, or be a super admin.'')
          else
            (case fetchReport d reportId of
               None \<Rightarrow> Inl (ApiException 404 ''Report not found'')
             | Some report \<Rightarrow>
                 if au_role authenticatedUser \<noteq> super_admin \<and> au_id authenticatedUser \<noteq> r_client_id report
                 then Inl (ApiException 403 ''Only the client who created the report can edit it (or super_admin).'')
                 else if au_role authenticatedUser \<noteq> super_admin
                         \<and> \<not> canEditReport now (r_created_at report) (r_sequence report)
                 then Inl (ApiException 403 ''Report can only be edited within 1 hour of creation and must be the first report of the week (sequence 0).'')
                 else
                   (case EditReportSchema body of
                      None \<Rightarrow> Inl ZodError
                    | Some updateData \<Rightarrow>
                        if length (updateFields updateData) = 0
                        then Inl (ApiException 400 ''No valid fields provided for update'')
                        else
                          (case reports_update_single (reports d) reportId (report_update updateData) of
                             None \<Rightarrow> Inl (ApiException 500 ''Failed to update report'')
                           | Some (updatedReport, rows) \<Rightarrow>
                               Inr ((updatedReport, fetchImages d reportId), d\<lparr>reports := rows\<rparr>)))))"

text \<open>\<open>DELETE /api/reports/{reportId}\<close>: the result is the store after the soft
  delete (the response is 204 with no body).\<close>

definition reports_DELETE :: "db \<Rightarrow> timestamp \<Rightarrow> AuthenticatedUser option \<Rightarrow> uuid \<Rightarrow> api_error + db" where
  "reports_DELETE d now user reportId =
     (case user of
        None \<Rightarrow> Inl Unauthenticated
      | Some authenticatedUser \<Rightarrow>
          if \<not> fst (checkReportAccess d (au_id authenticatedUser) (au_role authenticatedUser) reportId)
          then Inl (ApiException 403 ''Access denied. You can only delete your own reports or be a super admin.'')
          else
            (case fetchReport d reportId of
               None \<Rightarrow> Inl (ApiException 404 ''Report not found'')
             | Some report \<Rightarrow>
                 if au_role authenticatedUser \<noteq> super_admin \<and> au_id authenticatedUser \<noteq> r_client_id report
                 then Inl (ApiException 403 ''Only the client who created the report can delete it (or super_admin).'')
                 else Inr (d\<lparr>reports :=
                             map (\<lambda>x. if r_id x = reportId then x\<lparr>r_deleted_at := Some now\<rparr> else x)
                               (reports d)\<rparr>)))"

section \<open>Image upload handler\<close>





section \<open>Assignment handlers\<close>

text \<open>An insert into \<open>trainer_client\<close>: the primary key \<open>(trainer_id, client_id)\<close> and
  the foreign keys \<open>trainer_id references trainers(id)\<close> and
  \<open>client_id references clients(id)\<close>. \<open>None\<close> is the insert error. An update of
  \<open>is_active\<close> and \<open>started_at\<close> touches no constraint.\<close>

definition trainer_client_insert ::
  "db \<Rightarrow> uuid \<Rightarrow> uuid \<Rightarrow> assignment_row \<Rightarrow> (uuid \<times> uuid \<rightharpoonup> assignment_row) option" where
  "trainer_client_insert d trainerId clientId row =
     (if trainer_client d (trainerId, clientId) \<noteq> None then None
      else if trainerId \<notin> set (trainers d) then None
      else if clientId \<notin> set (clients d) then None
      else Some ((trainer_client d)((trainerId, clientId) \<mapsto> row)))"

text \<open>\<open>POST /api/trainers/{trainerId}/clients/{clientId}/activate\<close>.\<close>

definition activate_POST ::
  "db \<Rightarrow> timestamp \<Rightarrow> AuthenticatedUser option \<Rightarrow> uuid \<Rightarrow> uuid
    \<Rightarrow> api_error + (TrainerClientAssignmentDTO \<times> db)" where
  "activate_POST d now user trainerId clientId =
     (case user of
        None \<Rightarrow> Inl Unauthenticated
      | Some authenticatedUser \<Rightarrow>
          if au_role authenticatedUser \<noteq> super_admin \<and> au_id authenticatedUser \<noteq> trainerId
          then Inl (ApiException 403 ''Access denied. You can only manage your own client assignments or be a super admin.'')
          else if \<not> userExists d trainerId trainer
          then Inl (ApiException 404 ''Trainer not found'')
          else if \<not> userExists d clientId client
          then Inl (ApiException 404 ''Client not found'')
          else
            (case trainer_client d (trainerId, clientId) of
               Some existingAssignment \<Rightarrow>
                 (let updatedAssignment = existingAssignment\<lparr>is_active := True, started_at := now\<rparr>
                  in Inr ((trainerId, clientId, updatedAssignment),
                          d\<lparr>trainer_client :=
                              (trainer_client d)((trainerId, clientId) \<mapsto> updatedAssignment)\<rparr>))
             | None \<Rightarrow>
                 (let newAssignment = \<lparr>started_at = now, is_active = True\<rparr>
                  in case trainer_client_insert d trainerId clientId newAssignment of
                       None \<Rightarrow> Inl (ApiException 500 ''Failed to create assignment'')
                     | Some assignments \<Rightarrow>
                         Inr ((trainerId, clientId, newAssignment),
                              d\<lparr>trainer_client := assignments\<rparr>))))"

text \<open>\<open>POST /api/trainers/{trainerId}/clients/{clientId}/deactivate\<close>.\<close>

definition deactivate_POST ::
  "db \<Rightarrow> AuthenticatedUser option \<Rightarrow> uuid \<Rightarrow> uuid
    \<Rightarrow> api_error + (TrainerClientAssignmentDTO \<times> db)" where
  "deactivate_POST d user trainerId clientId =
     (case user of
        None \<Rightarrow> Inl Unauthenticated
      | Some authenticatedUser \<Rightarrow>
          if au_role authenticatedUser \<noteq> super_admin \<and> au_id authenticatedUser \<noteq> trainerId
          then Inl (ApiException 403 ''Access denied. You can only manage your own client assignments or be a super admin.'')
          else if \<not> userExists d trainerId trainer
          then Inl (ApiException 404 ''Trainer not found'')
          else if \<not> userExists d clientId client
          then Inl (ApiException 404 ''Client not found'')
          else
            (case trainer_client d (trainerId, clientId) of
               None \<Rightarrow> Inl (ApiException 404 ''Assignment not found'')
             | Some existingAssignment \<Rightarrow>
                 (let updatedAssignment = existingAssignment\<lparr>is_active := False\<rparr>
                  in Inr ((trainerId, clientId, updatedAssignment),
                          d\<lparr>trainer_client :=
                              (trainer_client d)((trainerId, clientId) \<mapsto> updatedAssignment)\<rparr>))))"

section \<open>Trends handler\<close>

definition checkTrendsAccess :: "db \<Rightarrow> uuid \<Rightarrow> role \<Rightarrow> uuid \<Rightarrow> bool" where
  "checkTrendsAccess d userId userRole clientId =
     (if userRole = super_admin then True
      else if userRole = client \<and> userId = clientId then True
      else if userRole = trainer then activeAssignment d userId clientId
      else False)"

definition allMetrics :: "string list" where
  "allMetrics = [''weight'', ''waist'', ''chest'', ''biceps_left'', ''biceps_right'',
                 ''thigh_left'', ''thigh_right'', ''cardio_days'']"

text \<open>\<open>val.split(",")\<close> and \<open>metric.trim()\<close>, the latter on ASCII white space.\<close>

fun js_split :: "char \<Rightarrow> string \<Rightarrow> string list" where
  "js_split c [] = [[]]"
| "js_split c (x # xs) =
     (if x = c then [] # js_split c xs
      else (case js_split c xs of w # ws \<Rightarrow> (x # w) # ws | [] \<Rightarrow> [[x]]))"

definition is_space :: "char \<Rightarrow> bool" where
  "is_space ch = (ch \<in> set [CHR '' '', CHR 0x09, CHR 0x0A, CHR 0x0B, CHR 0x0C, CHR 0x0D])"

definition js_trim :: "string \<Rightarrow> string" where
  "js_trim s = rev (dropWhile is_space (rev (dropWhile is_space s)))"

text \<open>\<open>TrendsQuerySchema\<close> on the \<open>metrics\<close> query parameter: the outer \<open>option\<close>
  is the parse, the inner one the optional list.\<close>

definition TrendsQuerySchema :: "string option \<Rightarrow> string list option option" where
  "TrendsQuerySchema val =
     (let metrics = (case val of
                       None \<Rightarrow> None
                     | Some v \<Rightarrow> if v = [] then None else Some (map js_trim (js_split CHR '','' v)))
      in case metrics of
           None \<Rightarrow> Some None
         | Some ms \<Rightarrow> if list_all (\<lambda>metric. metric \<in> set allMetrics) ms then Some (Some ms) else None)"

text \<open>\<open>report[metric]\<close> on a fetched row, as \<open>Number(value)\<close> when it is not null.\<close>

definition report_get :: "report_row \<Rightarrow> string \<Rightarrow> rat option" where
  "report_get report metric =
     (if metric = ''weight'' then r_weight report
      else if metric = ''waist'' then r_waist report
      else if metric = ''chest'' then r_chest report
      else if metric = ''biceps_left'' then r_biceps_left report
      else if metric = ''biceps_right'' then r_biceps_right report
      else if metric = ''thigh_left'' then r_thigh_left report
      else if metric = ''thigh_right'' then r_thigh_right report
      else if metric = ''cardio_days'' then map_option of_int (r_cardio_days report)
      else None)"

text \<open>The \<open>trends\<close> object is an association list with the keys in insertion order:
  assigning to a key replaces its value in place, and \<open>push\<close> extends the array under
  its key.\<close>

type_synonym TrendsDTO = "(string \<times> rat list) list"

definition init_trends :: "string list \<Rightarrow> TrendsDTO" where
  "init_trends requestedMetrics = fold (\<lambda>metric t. AList.update metric [] t) requestedMetrics []"

definition push_report :: "string list \<Rightarrow> report_row \<Rightarrow> TrendsDTO \<Rightarrow> TrendsDTO" where
  "push_report requestedMetrics report trends =
     fold (\<lambda>metric t. case report_get report metric of
                         None \<Rightarrow> t
                       | Some v \<Rightarrow> AList.map_entry metric (\<lambda>trendsArray. trendsArray @ [v]) t)
       requestedMetrics trends"

definition remove_empty :: "TrendsDTO \<Rightarrow> TrendsDTO" where
  "remove_empty trends =
     List.map_filter (\<lambda>(k, v). map_option (Pair k) v)
       (map (\<lambda>(k, arr). (k, if length arr = 0 then None else Some arr)) trends)"

text \<open>\<open>from("reports").eq("client_id", clientId).is("deleted_at", null)
  .order("created_at", {ascending: true})\<close>; rows with equal \<open>created_at\<close> keep
  their table order.\<close>

definition trend_reports :: "db \<Rightarrow> uuid \<Rightarrow> report_row list" where
  "trend_reports d clientId =
     sort_key r_created_at
       (filter (\<lambda>r. r_client_id r = clientId \<and> r_deleted_at r = None) (reports d))"

text \<open>\<open>GET /api/clients/{clientId}/trends\<close>; \<open>metricsParam\<close> is the \<open>metrics\<close>
  query parameter.\<close>

definition trends_GET ::
  "db \<Rightarrow> AuthenticatedUser option \<Rightarrow> uuid \<Rightarrow> string option \<Rightarrow> api_error + TrendsDTO" where
  "trends_GET d user clientId metricsParam =
     (case user of
        None \<Rightarrow> Inl Unauthenticated
      | Some authenticatedUser \<Rightarrow>
          if \<not> checkTrendsAccess d (au_id authenticatedUser) (au_role authenticatedUser) clientId
          then Inl (ApiException 403 ''Access denied. You can only view your own trends, your assigned clients' trends, or be a super admin.'')
          else if \<not> userExists d clientId client
          then Inl (ApiException 404 ''Client not found'')
          else
            (case TrendsQuerySchema metricsParam of
               None \<Rightarrow> Inl ZodError
             | Some metrics \<Rightarrow>
                 (let requestedMetrics = (case metrics of None \<Rightarrow> allMetrics | Some ms \<Rightarrow> ms);
                      trends = fold (push_report requestedMetrics) (trend_reports d clientId)
                                 (init_trends requestedMetrics)
                  in Inr (remove_empty trends))))"

section \<open>Outcomes and example data\<close>

text \<open>A response fails with a status code; or it succeeds.\<close>

definition fails_with :: "nat \<Rightarrow> api_error + 'a \<Rightarrow> bool" where
  "fails_with c res = (case res of Inl e \<Rightarrow> statusCode e = c | Inr x \<Rightarrow> False)"

definition succeeds :: "api_error + 'a \<Rightarrow> bool" where
  "succeeds res = (case res of Inl e \<Rightarrow> False | Inr x \<Rightarrow> True)"

definition error_of :: "api_error + 'a \<Rightarrow> api_error option" where
  "error_of res = (case res of Inl e \<Rightarrow> Some e | Inr x \<Rightarrow> None)"

text \<open>An administrator, a coach and a client; the coach has an active assignment with
  the client. Times are milliseconds: \<open>1710144000000\<close> is 2024-03-11T08:00:00Z. The
  client has the two reports of that week, the second an hour after the first, and a
  soft-deleted report of the week before.\<close>

definition ex_admin :: AuthenticatedUser where
  "ex_admin = \<lparr>au_id = ''admin'', au_role = super_admin\<rparr>"

definition ex_coach :: AuthenticatedUser where
  "ex_coach = \<lparr>au_id = ''coach'', au_role = trainer\<rparr>"

definition ex_client :: AuthenticatedUser where
  "ex_client = \<lparr>au_id = ''c1'', au_role = client\<rparr>"

definition ex_users :: "uuid \<rightharpoonup> user_row" where
  "ex_users =
     [''admin'' \<mapsto> \<lparr>u_role = super_admin, u_deleted_at = None\<rparr>,
      ''coach'' \<mapsto> \<lparr>u_role = trainer, u_deleted_at = None\<rparr>,
      ''c1'' \<mapsto> \<lparr>u_role = client, u_deleted_at = None\<rparr>]"

definition ex_report :: "uuid \<Rightarrow> timestamp \<Rightarrow> int \<Rightarrow> int \<Rightarrow> rat option \<Rightarrow> timestamp option \<Rightarrow> report_row" where
  "ex_report i t wk s w del =
     \<lparr>r_id = i, r_client_id = ''c1'', r_created_at = t, r_week_number = wk, r_year = 2024,
      r_sequence = s, r_weight = w, r_waist = Some 80, r_chest = None, r_biceps_left = None,
      r_biceps_right = None, r_thigh_left = None, r_thigh_right = None,
      r_cardio_days = None, r_note = Some ''first'', r_deleted_at = del\<rparr>"


definition ex_db :: db where
  "ex_db =
     \<lparr>users = ex_users, trainers = [''coach''], clients = [''c1''],
      trainer_client = [(''coach'', ''c1'') \<mapsto> \<lparr>started_at = 0, is_active = True\<rparr>],
      reports = [ex_report ''r1'' 1710144000000 11 0 (Some 70) None,
                 ex_report ''r2'' 1710147600000 11 1 None None,
                 ex_report ''r3'' 1709539200000 10 0 (Some 71) (Some 1709542800000)],
      report_images = []\<rparr>"

definition ex_patch :: ReportData where
  "ex_patch = \<lparr>d_weight = Some 72, d_waist = None, d_chest = None, d_biceps_left = None,
      d_biceps_right = None, d_thigh_left = None, d_thigh_right = None,
      d_cardio_days = None, d_note = None\<rparr>"

text \<open>The store after a response: the new one when the handler returned, the old one
  when it threw. And a run of activation calls for one pair, one per time in the list.\<close>

definition state_after :: "api_error + ('a \<times> db) \<Rightarrow> db \<Rightarrow> db" where
  "state_after res d = (case res of Inl e \<Rightarrow> d | Inr (x, d') \<Rightarrow> d')"

fun activate_repeatedly :: "db \<Rightarrow> AuthenticatedUser option \<Rightarrow> uuid \<Rightarrow> uuid \<Rightarrow> timestamp list \<Rightarrow> db" where
  "activate_repeatedly d user trainerId clientId [] = d"
| "activate_repeatedly d user trainerId clientId (now # nows) =
     activate_repeatedly (state_after (activate_POST d now user trainerId clientId) d)
       user trainerId clientId nows"

text \<open>The store after the coach has deleted the client (\<open>DELETE /api/clients/c1\<close>
  sets \<open>deleted_at\<close> on the user and leaves the assignment as it is); and a store with
  one more user, registered as a client and later given the role \<open>trainer\<close> in
  \<open>users\<close>, who has a \<open>clients\<close> row and no \<open>trainers\<close> row.\<close>

definition ex_db_deleted_client :: db where
  "ex_db_deleted_client =
     ex_db\<lparr>users := ex_users(''c1'' \<mapsto> \<lparr>u_role = client, u_deleted_at = Some 1710150000000\<rparr>)\<rparr>"

definition ex_db_role_changed :: db where
  "ex_db_role_changed =
     ex_db\<lparr>users := ex_users(''u2'' \<mapsto> \<lparr>u_role = trainer, u_deleted_at = None\<rparr>),
           clients := [''c1'', ''u2'']\<rparr>"







text \<open>A store with the three users and nothing else, and one holding three reports of
  the client whose weights are 70, none and 68, in the order of their creation.\<close>

definition ex_empty :: db where
  "ex_empty = \<lparr>users = ex_users, trainers = [''coach''], clients = [''c1''],
                trainer_client = Map.empty, reports = [], report_images = []\<rparr>"

definition ex_db_weights :: db where
  "ex_db_weights =
     ex_empty\<lparr>reports := [ex_report ''w1'' 1710144000000 11 0 (Some 70) None,
                           ex_report ''w2'' 1710748800000 12 0 None None,
                           ex_report ''w3'' 1711353600000 13 0 (Some 68) None]\<rparr>"

text \<open>For stating what the trends hold: the array found under a metric in a response;
  and the values the handler's two loops push for a metric over a list of reports, each
  report's value as often as the metric is named in the request.\<close>

definition trend_of :: "string \<Rightarrow> api_error + TrendsDTO \<Rightarrow> rat list option" where
  "trend_of metric res = (case res of Inl e \<Rightarrow> None | Inr t \<Rightarrow> map_of t metric)"

definition pushed_values :: "string list \<Rightarrow> string \<Rightarrow> report_row list \<Rightarrow> rat list" where
  "pushed_values requestedMetrics metric rs =
     concat (map (\<lambda>r. case report_get r metric of
                         None \<Rightarrow> []
                       | Some v \<Rightarrow> replicate (count_list requestedMetrics metric) v) rs)"

text \<open>For stating what a submission supplied: the value given for a metric; and the
  parsed body with every zero measurement and an empty note left out.\<close>

definition data_get :: "ReportData \<Rightarrow> string \<Rightarrow> rat option" where
  "data_get u metric =
     (if metric = ''weight'' then d_weight u
      else if metric = ''waist'' then d_waist u
      else if metric = ''chest'' then d_chest u
      else if metric = ''biceps_left'' then d_biceps_left u
      else if metric = ''biceps_right'' then d_biceps_right u
      else if metric = ''thigh_left'' then d_thigh_left u
      else if metric = ''thigh_right'' then d_thigh_right u
      else if metric = ''cardio_days'' then map_option of_int (d_cardio_days u)
      else None)"

definition omit_falsy :: "ReportData \<Rightarrow> ReportData" where
  "omit_falsy u =
     \<lparr>d_weight = or_null (d_weight u), d_waist = or_null (d_waist u),
      d_chest = or_null (d_chest u), d_biceps_left = or_null (d_biceps_left u),
      d_biceps_right = or_null (d_biceps_right u), d_thigh_left = or_null (d_thigh_left u),
      d_thigh_right = or_null (d_thigh_right u), d_cardio_days = or_null (d_cardio_days u),
      d_note = or_null_str (d_note u)\<rparr>"

text \<open>The values pushed for a metric by one report.\<close>

definition pushed_once :: "string list \<Rightarrow> string \<Rightarrow> report_row \<Rightarrow> rat list" where
  "pushed_once ms m r =
     (case report_get r m of None \<Rightarrow> [] | Some v \<Rightarrow> replicate (count_list ms m) v)"

text \<open>A submission whose measurements are all 0 and whose note is empty, what it parses
  to, the parsed empty submission, and the row stored for either.\<close>

definition ex_zero_body :: json where
  "ex_zero_body =
     JObj [(''weight'', JNum 0), (''waist'', JNum 0), (''chest'', JNum 0),
           (''biceps_left'', JNum 0), (''biceps_right'', JNum 0), (''thigh_left'', JNum 0),
           (''thigh_right'', JNum 0), (''cardio_days'', JNum 0), (''note'', JStr [])]"

definition ex_zero_data :: ReportData where
  "ex_zero_data =
     \<lparr>d_weight = Some 0, d_waist = Some 0, d_chest = Some 0, d_biceps_left = Some 0,
      d_biceps_right = Some 0, d_thigh_left = Some 0, d_thigh_right = Some 0,
      d_cardio_days = Some 0, d_note = Some []\<rparr>"

definition ex_no_data :: ReportData where
  "ex_no_data =
     \<lparr>d_weight = None, d_waist = None, d_chest = None, d_biceps_left = None,
      d_biceps_right = None, d_thigh_left = None, d_thigh_right = None,
      d_cardio_days = None, d_note = None\<rparr>"

definition ex_zero_stored :: report_row where
  "ex_zero_stored =
     \<lparr>r_id = ''r1'', r_client_id = ''c1'', r_created_at = 1710144000000, r_week_number = 11,
      r_year = 2024, r_sequence = 0, r_weight = None, r_waist = None, r_chest = None,
      r_biceps_left = None, r_biceps_right = None, r_thigh_left = None, r_thigh_right = None,
      r_cardio_days = None, r_note = None, r_deleted_at = None\<rparr>"

section \<open>Properties\<close>

subsection \<open>The calendar on the dates used below\<close>

lemma calendar_examples:
  "civil_from_days 0 = (1970, 1, 1)"
  "civil_from_days (1735560000000 div MS_PER_DAY) = (2024, 12, 30)"
  "civil_from_days (1741593600000 div MS_PER_DAY) = (2025, 3, 10)"
  "civil_from_days (1710144000000 div MS_PER_DAY) = (2024, 3, 11)"
  "days_from_civil 2024 12 30 = 1735560000000 div MS_PER_DAY"
  "getUTCDay 1735560000000 = 1" "getUTCDay 1741593600000 = 1" "getUTCDay 1710144000000 = 1"
  by code_simp+

lemma getCurrentWeekInfo_eq: "getCurrentWeekInfo now = getWeekInfo now"
  by (simp add: getCurrentWeekInfo_def getWeekInfo_def)

subsection \<open>Fetching a report\<close>

lemma single_Some_iff: "single xs = Some x \<longleftrightarrow> xs = [x]"
  by (auto simp: single_def split: list.splits)

lemma fetchReport_SomeD:
  assumes "fetchReport d reportId = Some report"
  shows "report \<in> set (reports d)" and "r_id report = reportId" and "r_deleted_at report = None"
proof -
  from assms have eq: "filter (\<lambda>r. r_id r = reportId \<and> r_deleted_at r = None) (reports d) = [report]"
    by (simp add: fetchReport_def single_Some_iff)
  then have "report \<in> set (filter (\<lambda>r. r_id r = reportId \<and> r_deleted_at r = None) (reports d))"
    by simp
  then show "report \<in> set (reports d)" and "r_id report = reportId" and "r_deleted_at report = None"
    by simp_all
qed

lemma fetchReport_absent:
  assumes "\<not> list_ex (\<lambda>r. r_id r = reportId \<and> r_deleted_at r = None) (reports d)"
  shows "fetchReport d reportId = None"
proof -
  from assms have "filter (\<lambda>r. r_id r = reportId \<and> r_deleted_at r = None) (reports d) = []"
    by (simp add: list_ex_iff filter_empty_conv)
  then show ?thesis by (simp add: fetchReport_def single_def)
qed

subsection \<open>A missing report is reported as forbidden\<close>

text \<open>
  Claim C10. For every authenticated principal, the administrator included, a get,
  an edit or a soft delete addressed to a report id with no stored non-deleted
  report (never created, or already soft-deleted) fails with 403 Forbidden, not
  404: the access check fetches the report first and grants nothing without it.
\<close>

theorem missing_report_is_forbidden:
  assumes "\<not> list_ex (\<lambda>r. r_id r = reportId \<and> r_deleted_at r = None) (reports d)"
  shows "fails_with 403 (reports_GET d (Some u) reportId)
       \<and> fails_with 403 (reports_PATCH d now (Some u) reportId body)
       \<and> fails_with 403 (reports_DELETE d now (Some u) reportId)"
proof -
  have "fetchReport d reportId = None"
    using assms by (rule fetchReport_absent)
  then have "\<not> fst (checkReportAccess d (au_id u) (au_role u) reportId)"
    by (simp add: checkReportAccess_def)
  then show ?thesis
    by (simp add: reports_GET_def reports_PATCH_def reports_DELETE_def fails_with_def)
qed

theorem missing_report_is_forbidden_witness:
  "fails_with 403 (reports_GET ex_db (Some ex_admin) ''r3'')
   \<and> fails_with 403 (reports_PATCH ex_db 1710144000000 (Some ex_admin) ''r3'' (JObj [(''weight'', JNum 72)]))
   \<and> fails_with 403 (reports_DELETE ex_db 1710144000000 (Some ex_admin) ''r3'')
   \<and> fails_with 403 (reports_GET ex_db (Some ex_client) ''nope'')"
proof -
  have a: "\<not> list_ex (\<lambda>r. r_id r = ''r3'' \<and> r_deleted_at r = None) (reports ex_db)"
    by (simp add: ex_db_def ex_report_def)
  have b: "\<not> list_ex (\<lambda>r. r_id r = ''nope'' \<and> r_deleted_at r = None) (reports ex_db)"
    by (simp add: ex_db_def ex_report_def)
  show ?thesis
    using missing_report_is_forbidden [OF a] missing_report_is_forbidden [OF b] by simp
qed

subsection \<open>Rows with a unique id\<close>

lemma filter_unique_id:
  assumes "distinct (map r_id rows)" and "r \<in> set rows"
  shows "filter (\<lambda>x. r_id x = r_id r) rows = [r]"
  using assms
proof (induction rows)
  case Nil
  then show ?case by simp
next
  case (Cons a rows)
  show ?case
  proof (cases "a = r")
    case True
    with Cons.prems have "\<forall>x\<in>set rows. r_id x \<noteq> r_id r" by (force simp: image_iff)
    then have "filter (\<lambda>x. r_id x = r_id r) rows = []" by (simp add: filter_empty_conv)
    with True show ?thesis by simp
  next
    case False
    with Cons.prems have "r \<in> set rows" and "r_id a \<noteq> r_id r" by auto
    with Cons show ?thesis by simp
  qed
qed

subsection \<open>Coaches never write report content\<close>

text \<open>
  Claim C7. For every principal whose role is coach (\<open>trainer\<close>), submitting a report
  for any client, editing any report and soft-deleting any report all fail with 403
  Forbidden, whether or not the coach holds an active assignment with the report's
  owner. Reports belong to client profiles, so the coach is the owner of no stored
  report; the theorem names that as its second premise.
\<close>

theorem coach_cannot_write_reports:
  assumes coach: "au_role u = trainer"
    and not_owner: "\<not> list_ex (\<lambda>r. r_client_id r = au_id u) (reports d)"
  shows "fails_with 403 (client_reports_POST d now newId (Some u) clientId body)
       \<and> fails_with 403 (reports_PATCH d now (Some u) reportId patch)
       \<and> fails_with 403 (reports_DELETE d now (Some u) reportId)"
proof -
  have submit: "fails_with 403 (client_reports_POST d now newId (Some u) clientId body)"
    using coach by (simp add: client_reports_POST_def fails_with_def)
  have owner: "au_id u \<noteq> r_client_id report" if "fetchReport d reportId = Some report" for report
  proof -
    from that have "report \<in> set (reports d)" by (rule fetchReport_SomeD)
    with not_owner show ?thesis by (auto simp: list_ex_iff)
  qed
  have edit: "fails_with 403 (reports_PATCH d now (Some u) reportId patch)"
  proof (cases "fetchReport d reportId")
    case None
    then show ?thesis by (simp add: reports_PATCH_def checkReportAccess_def fails_with_def)
  next
    case (Some report)
    with owner [OF Some] coach show ?thesis
      by (simp add: reports_PATCH_def fails_with_def)
  qed
  have del: "fails_with 403 (reports_DELETE d now (Some u) reportId)"
  proof (cases "fetchReport d reportId")
    case None
    then show ?thesis by (simp add: reports_DELETE_def checkReportAccess_def fails_with_def)
  next
    case (Some report)
    with owner [OF Some] coach show ?thesis
      by (simp add: reports_DELETE_def fails_with_def)
  qed
  from submit edit del show ?thesis by simp
qed

theorem coach_cannot_write_reports_witness:
  "activeAssignment ex_db ''coach'' ''c1''
   \<and> fails_with 403 (client_reports_POST ex_db 1710144000000 ''r9'' (Some ex_coach) ''c1'' (JObj [(''weight'', JNum 72)]))
   \<and> fails_with 403 (reports_PATCH ex_db 1710144000000 (Some ex_coach) ''r1'' (JObj [(''weight'', JNum 72)]))
   \<and> fails_with 403 (reports_DELETE ex_db 1710144000000 (Some ex_coach) ''r1'')"
proof -
  have a: "au_role ex_coach = trainer" by (simp add: ex_coach_def)
  have b: "\<not> list_ex (\<lambda>r. r_client_id r = au_id ex_coach) (reports ex_db)"
    by (simp add: ex_db_def ex_report_def ex_coach_def)
  have c: "activeAssignment ex_db ''coach'' ''c1''"
    by (simp add: activeAssignment_def ex_db_def)
  show ?thesis
    using coach_cannot_write_reports [OF a b] c by simp
qed

subsection \<open>What a parsed edit holds\<close>

lemma zod_number_optional_SomeD:
  assumes "zod_number_optional mx v = Some r"
  shows "(v = None \<longrightarrow> r = None) \<and> (\<forall>x. v = Some (JNum x) \<longrightarrow> r = Some x) \<and> v \<noteq> Some JNull"
  using assms by (cases "(mx, v)" rule: zod_number_optional.cases) (auto split: if_splits)

lemma zod_int_optional_SomeD:
  assumes "zod_int_optional lo hi v = Some r"
  shows "(v = None \<longrightarrow> r = None) \<and> (\<forall>x. v = Some (JNum x) \<longrightarrow> r = Some \<lfloor>x\<rfloor>) \<and> v \<noteq> Some JNull"
proof (cases v)
  case None
  with assms show ?thesis by simp
next
  case (Some j)
  with assms show ?thesis
    by (cases j) (auto split: if_splits)
qed

lemma zod_string_optional_SomeD:
  assumes "zod_string_optional n v = Some r"
  shows "(v = None \<longrightarrow> r = None) \<and> (\<forall>s. v = Some (JStr s) \<longrightarrow> r = Some s) \<and> v \<noteq> Some JNull"
  using assms by (cases "(n, v)" rule: zod_string_optional.cases) (auto split: if_splits)

lemma EditReportSchema_SomeD:
  assumes "EditReportSchema body = Some p"
  shows "zod_number_optional 1000 (json_get body ''weight'') = Some (d_weight p)"
    and "zod_number_optional 500 (json_get body ''waist'') = Some (d_waist p)"
    and "zod_number_optional 500 (json_get body ''chest'') = Some (d_chest p)"
    and "zod_number_optional 200 (json_get body ''biceps_left'') = Some (d_biceps_left p)"
    and "zod_number_optional 200 (json_get body ''biceps_right'') = Some (d_biceps_right p)"
    and "zod_number_optional 300 (json_get body ''thigh_left'') = Some (d_thigh_left p)"
    and "zod_number_optional 300 (json_get body ''thigh_right'') = Some (d_thigh_right p)"
    and "zod_int_optional 0 7 (json_get body ''cardio_days'') = Some (d_cardio_days p)"
    and "zod_string_optional 1000 (json_get body ''note'') = Some (d_note p)"
  using assms
  by (auto simp: EditReportSchema_def bind_eq_Some_conv split: if_splits)

lemma EditReportSchema_null_note:
  assumes "json_get body ''note'' = Some JNull"
  shows "EditReportSchema body = None"
proof (cases "EditReportSchema body")
  case None
  then show ?thesis .
next
  case (Some p)
  then have "zod_string_optional 1000 (json_get body ''note'') = Some (d_note p)"
    by (rule EditReportSchema_SomeD)
  with assms show ?thesis by simp
qed

subsection \<open>The result of an edit\<close>

lemma report_update_keeps:
  "r_id (report_update p r) = r_id r"
  "r_client_id (report_update p r) = r_client_id r"
  "r_created_at (report_update p r) = r_created_at r"
  "r_week_number (report_update p r) = r_week_number r"
  "r_year (report_update p r) = r_year r"
  "r_sequence (report_update p r) = r_sequence r"
  "r_deleted_at (report_update p r) = r_deleted_at r"
  by (simp_all add: report_update_def)

lemma reports_update_single_unique:
  assumes "distinct (map r_id rows)" and "r \<in> set rows"
  shows "reports_update_single rows (r_id r) f =
           Some (f r, map (\<lambda>x. if r_id x = r_id r then f x else x) rows)"
  using filter_unique_id [OF assms] by (simp add: reports_update_single_def single_def)

lemma reports_PATCH_permitted:
  assumes fetch: "fetchReport d reportId = Some report"
    and pk: "distinct (map r_id (reports d))"
    and who: "au_role u = super_admin
              \<or> (au_role u = client \<and> au_id u = r_client_id report
                  \<and> canEditReport now (r_created_at report) (r_sequence report))"
    and parse: "EditReportSchema body = Some patch"
    and fields: "updateFields patch \<noteq> []"
  shows "reports_PATCH d now (Some u) reportId body =
           Inr ((report_update patch report, fetchImages d reportId),
                d\<lparr>reports := map (\<lambda>x. if r_id x = reportId then report_update patch x else x)
                                 (reports d)\<rparr>)"
proof -
  have mem: "report \<in> set (reports d)" and rid: "r_id report = reportId"
    using fetch by (rule fetchReport_SomeD)+
  have access: "fst (checkReportAccess d (au_id u) (au_role u) reportId)"
    using who fetch by (auto simp: checkReportAccess_def)
  have upd: "reports_update_single (reports d) reportId (report_update patch) =
               Some (report_update patch report,
                     map (\<lambda>x. if r_id x = reportId then report_update patch x else x) (reports d))"
    using reports_update_single_unique [OF pk mem] rid by simp
  from who show ?thesis
    using access fetch parse fields upd by (auto simp: reports_PATCH_def)
qed

lemma reports_PATCH_InrD:
  assumes ok: "reports_PATCH d now user reportId body = Inr (dto, d')"
    and old: "fetchReport d reportId = Some report"
  shows "\<exists>patch. EditReportSchema body = Some patch \<and> fst dto = report_update patch report"
proof -
  from ok old obtain patch r rows where parse: "EditReportSchema body = Some patch"
    and upd: "reports_update_single (reports d) reportId (report_update patch) = Some (r, rows)"
    and dto: "fst dto = r"
    by (auto simp: reports_PATCH_def split: option.splits if_splits)
  from upd obtain x where one: "filter (\<lambda>r. r_id r = reportId) (reports d) = [x]"
    and r: "r = report_update patch x"
    by (auto simp: reports_update_single_def single_Some_iff split: option.splits)
  have "report \<in> set (reports d)" and "r_id report = reportId"
    using old by (rule fetchReport_SomeD)+
  then have "report \<in> set (filter (\<lambda>r. r_id r = reportId) (reports d))" by simp
  with one have "x = report" by simp
  with parse r dto show ?thesis by simp
qed

lemma canEditReport_iff:
  "canEditReport now createdAt sequence \<longleftrightarrow> sequence = 0 \<and> now - createdAt < 60 * 60 * 1000"
  by (auto simp: canEditReport_def Let_def)

subsection \<open>The edit window\<close>

text \<open>
  Claim C3. For an edit of a stored, non-deleted report by a principal who is not an
  administrator: when the report's sequence is not 0 (so for sequence 1) the edit
  fails with 403 Forbidden whatever the time; when the sequence is 0, the owner's
  edit fails with 403 once \<open>now - created_at\<close> has reached one hour (3600000 ms,
  exactly 1h00m00s included) and succeeds strictly before that. An administrator's
  edit succeeds for any sequence and any elapsed time. Success is for a body that
  passes \<open>EditReportSchema\<close> and sets at least one field, on a table whose ids
  are unique.
\<close>

theorem edit_window:
  assumes fetch: "fetchReport d reportId = Some report"
  shows "(au_role u \<noteq> super_admin \<and> r_sequence report \<noteq> 0
            \<longrightarrow> fails_with 403 (reports_PATCH d now (Some u) reportId body))
       \<and> (au_role u = client \<and> au_id u = r_client_id report \<and> r_sequence report = 0
            \<and> now - r_created_at report \<ge> 60 * 60 * 1000
            \<longrightarrow> fails_with 403 (reports_PATCH d now (Some u) reportId body))
       \<and> (au_role u = client \<and> au_id u = r_client_id report \<and> r_sequence report = 0
            \<and> now - r_created_at report < 60 * 60 * 1000
            \<and> distinct (map r_id (reports d))
            \<and> EditReportSchema body = Some patch \<and> updateFields patch \<noteq> []
            \<longrightarrow> succeeds (reports_PATCH d now (Some u) reportId body))
       \<and> (au_role u = super_admin
            \<and> distinct (map r_id (reports d))
            \<and> EditReportSchema body = Some patch \<and> updateFields patch \<noteq> []
            \<longrightarrow> succeeds (reports_PATCH d now (Some u) reportId body))"
proof (intro conjI impI)
  assume a: "au_role u \<noteq> super_admin \<and> r_sequence report \<noteq> 0"
  then have "\<not> canEditReport now (r_created_at report) (r_sequence report)"
    by (simp add: canEditReport_iff)
  with a fetch show "fails_with 403 (reports_PATCH d now (Some u) reportId body)"
    by (simp add: reports_PATCH_def fails_with_def)
next
  assume a: "au_role u = client \<and> au_id u = r_client_id report \<and> r_sequence report = 0
             \<and> now - r_created_at report \<ge> 60 * 60 * 1000"
  then have "\<not> canEditReport now (r_created_at report) (r_sequence report)"
    by (simp add: canEditReport_iff)
  with a fetch show "fails_with 403 (reports_PATCH d now (Some u) reportId body)"
    by (simp add: reports_PATCH_def fails_with_def)
next
  assume a: "au_role u = client \<and> au_id u = r_client_id report \<and> r_sequence report = 0
             \<and> now - r_created_at report < 60 * 60 * 1000
             \<and> distinct (map r_id (reports d))
             \<and> EditReportSchema body = Some patch \<and> updateFields patch \<noteq> []"
  then have who: "au_role u = super_admin
              \<or> (au_role u = client \<and> au_id u = r_client_id report
                  \<and> canEditReport now (r_created_at report) (r_sequence report))"
    by (simp add: canEditReport_iff)
  from a have pk: "distinct (map r_id (reports d))" and parse: "EditReportSchema body = Some patch"
    and fields: "updateFields patch \<noteq> []" by simp_all
  show "succeeds (reports_PATCH d now (Some u) reportId body)"
    by (simp add: reports_PATCH_permitted [OF fetch pk who parse fields] succeeds_def)
next
  assume a: "au_role u = super_admin
             \<and> distinct (map r_id (reports d))
             \<and> EditReportSchema body = Some patch \<and> updateFields patch \<noteq> []"
  then have who: "au_role u = super_admin
              \<or> (au_role u = client \<and> au_id u = r_client_id report
                  \<and> canEditReport now (r_created_at report) (r_sequence report))"
    by simp
  from a have pk: "distinct (map r_id (reports d))" and parse: "EditReportSchema body = Some patch"
    and fields: "updateFields patch \<noteq> []" by simp_all
  show "succeeds (reports_PATCH d now (Some u) reportId body)"
    by (simp add: reports_PATCH_permitted [OF fetch pk who parse fields] succeeds_def)
qed

lemma ex_fetch_r1: "fetchReport ex_db ''r1'' = Some (ex_report ''r1'' 1710144000000 11 0 (Some 70) None)"
  by (simp add: fetchReport_def ex_db_def ex_report_def single_def)

lemma ex_fetch_r2: "fetchReport ex_db ''r2'' = Some (ex_report ''r2'' 1710147600000 11 1 None None)"
  by (simp add: fetchReport_def ex_db_def ex_report_def single_def)

lemma ex_distinct: "distinct (map r_id (reports ex_db))"
  by (simp add: ex_db_def ex_report_def)

lemma ex_parse: "EditReportSchema (JObj [(''weight'', JNum 72)]) = Some ex_patch"
  by (simp add: EditReportSchema_def ex_patch_def)

lemma ex_patch_fields: "updateFields ex_patch \<noteq> []"
  by (simp add: updateFields_def ex_patch_def)

theorem edit_window_witness:
  "fails_with 403 (reports_PATCH ex_db 1710147600001 (Some ex_client) ''r2'' (JObj [(''weight'', JNum 72)]))
   \<and> fails_with 403 (reports_PATCH ex_db 1710147600000 (Some ex_client) ''r1'' (JObj [(''weight'', JNum 72)]))
   \<and> succeeds (reports_PATCH ex_db 1710147599999 (Some ex_client) ''r1'' (JObj [(''weight'', JNum 72)]))
   \<and> succeeds (reports_PATCH ex_db 1810147600000 (Some ex_admin) ''r2'' (JObj [(''weight'', JNum 72)]))"
proof -
  have 1: "fails_with 403 (reports_PATCH ex_db 1710147600001 (Some ex_client) ''r2'' (JObj [(''weight'', JNum 72)]))"
    using edit_window [OF ex_fetch_r2, of ex_client 1710147600001 "JObj [(''weight'', JNum 72)]" ex_patch]
    by (simp add: ex_client_def ex_report_def)
  have 2: "fails_with 403 (reports_PATCH ex_db 1710147600000 (Some ex_client) ''r1'' (JObj [(''weight'', JNum 72)]))"
    using edit_window [OF ex_fetch_r1, of ex_client 1710147600000 "JObj [(''weight'', JNum 72)]" ex_patch]
    by (simp add: ex_client_def ex_report_def)
  have 3: "succeeds (reports_PATCH ex_db 1710147599999 (Some ex_client) ''r1'' (JObj [(''weight'', JNum 72)]))"
    using edit_window [OF ex_fetch_r1, of ex_client 1710147599999 "JObj [(''weight'', JNum 72)]" ex_patch]
      ex_distinct ex_parse ex_patch_fields
    by (simp add: ex_client_def ex_report_def)
  have 4: "succeeds (reports_PATCH ex_db 1810147600000 (Some ex_admin) ''r2'' (JObj [(''weight'', JNum 72)]))"
    using edit_window [OF ex_fetch_r2, of ex_admin 1810147600000 "JObj [(''weight'', JNum 72)]" ex_patch]
      ex_distinct ex_parse ex_patch_fields
    by (simp add: ex_admin_def)
  from 1 2 3 4 show ?thesis by simp
qed

subsection \<open>Partial updates\<close>

lemma reports_PATCH_store:
  assumes ok: "reports_PATCH d now user reportId body = Inr (dto, d')"
  shows "\<exists>patch. reports d' = map (\<lambda>x. if r_id x = reportId then report_update patch x else x) (reports d)
           \<and> EditReportSchema body = Some patch"
  using ok
  by (auto simp: reports_PATCH_def reports_update_single_def split: option.splits if_splits)

lemma filter_map_report_update:
  "filter (\<lambda>r. r_id r = reportId \<and> r_deleted_at r = None)
     (map (\<lambda>x. if r_id x = reportId then report_update p x else x) rows) =
   map (\<lambda>x. if r_id x = reportId then report_update p x else x)
     (filter (\<lambda>r. r_id r = reportId \<and> r_deleted_at r = None) rows)"
  by (induction rows) (simp_all add: report_update_keeps)

lemma reports_PATCH_stored:
  assumes ok: "reports_PATCH d now user reportId body = Inr (dto, d')"
    and old: "fetchReport d reportId = Some report"
  shows "fetchReport d' reportId = Some (fst dto)"
proof -
  from reports_PATCH_store [OF ok] obtain p where
    rows: "reports d' = map (\<lambda>x. if r_id x = reportId then report_update p x else x) (reports d)"
    and parse: "EditReportSchema body = Some p" by blast
  from reports_PATCH_InrD [OF ok old] parse have dto: "fst dto = report_update p report" by auto
  from old have one: "filter (\<lambda>r. r_id r = reportId \<and> r_deleted_at r = None) (reports d) = [report]"
    by (simp add: fetchReport_def single_Some_iff)
  have "r_id report = reportId" using old by (rule fetchReport_SomeD)
  then show ?thesis
    by (simp add: fetchReport_def rows filter_map_report_update one single_def dto)
qed

text \<open>
  Claim C4, amended. For every permitted edit, that is a \<open>PATCH\<close> that returns a
  report, the returned report is the one now stored under the id, every field absent
  from the patch keeps its stored value, and a note given as a string replaces the
  note. A patch whose note is an explicit \<open>null\<close> is never accepted:
  \<open>EditReportSchema\<close> declares the note as an optional string, so the edit does
  not succeed, and for a principal who passes the access, owner and window checks it
  fails with the schema's validation error (status 400), leaving the note as it was.
\<close>

theorem edit_partial_update:
  "(reports_PATCH d now user reportId body = Inr (dto, d') \<and> fetchReport d reportId = Some old
      \<longrightarrow> fetchReport d' reportId = Some (fst dto)
        \<and> (json_get body ''weight'' = None \<longrightarrow> r_weight (fst dto) = r_weight old)
        \<and> (json_get body ''waist'' = None \<longrightarrow> r_waist (fst dto) = r_waist old)
        \<and> (json_get body ''chest'' = None \<longrightarrow> r_chest (fst dto) = r_chest old)
        \<and> (json_get body ''biceps_left'' = None \<longrightarrow> r_biceps_left (fst dto) = r_biceps_left old)
        \<and> (json_get body ''biceps_right'' = None \<longrightarrow> r_biceps_right (fst dto) = r_biceps_right old)
        \<and> (json_get body ''thigh_left'' = None \<longrightarrow> r_thigh_left (fst dto) = r_thigh_left old)
        \<and> (json_get body ''thigh_right'' = None \<longrightarrow> r_thigh_right (fst dto) = r_thigh_right old)
        \<and> (json_get body ''cardio_days'' = None \<longrightarrow> r_cardio_days (fst dto) = r_cardio_days old)
        \<and> (json_get body ''note'' = None \<longrightarrow> r_note (fst dto) = r_note old)
        \<and> (\<forall>s. json_get body ''note'' = Some (JStr s) \<longrightarrow> r_note (fst dto) = Some s))
   \<and> (json_get body ''note'' = Some JNull
      \<longrightarrow> \<not> succeeds (reports_PATCH d now user reportId body)
        \<and> (fetchReport d reportId = Some old
             \<and> (au_role u = super_admin
                  \<or> (au_role u = client \<and> au_id u = r_client_id old
                      \<and> canEditReport now (r_created_at old) (r_sequence old)))
             \<longrightarrow> reports_PATCH d now (Some u) reportId body = Inl ZodError))"
proof (intro conjI impI)
  assume a: "reports_PATCH d now user reportId body = Inr (dto, d') \<and> fetchReport d reportId = Some old"
  then have ok: "reports_PATCH d now user reportId body = Inr (dto, d')"
    and old: "fetchReport d reportId = Some old" by simp_all
  from reports_PATCH_InrD [OF ok old] obtain p where
    parse: "EditReportSchema body = Some p" and dto: "fst dto = report_update p old" by blast
  note f = EditReportSchema_SomeD [OF parse]
  show "fetchReport d' reportId = Some (fst dto)"
    using ok old by (rule reports_PATCH_stored)
  show "r_weight (fst dto) = r_weight old" if "json_get body ''weight'' = None"
    using zod_number_optional_SomeD [OF f(1)] that by (simp add: dto report_update_def)
  show "r_waist (fst dto) = r_waist old" if "json_get body ''waist'' = None"
    using zod_number_optional_SomeD [OF f(2)] that by (simp add: dto report_update_def)
  show "r_chest (fst dto) = r_chest old" if "json_get body ''chest'' = None"
    using zod_number_optional_SomeD [OF f(3)] that by (simp add: dto report_update_def)
  show "r_biceps_left (fst dto) = r_biceps_left old" if "json_get body ''biceps_left'' = None"
    using zod_number_optional_SomeD [OF f(4)] that by (simp add: dto report_update_def)
  show "r_biceps_right (fst dto) = r_biceps_right old" if "json_get body ''biceps_right'' = None"
    using zod_number_optional_SomeD [OF f(5)] that by (simp add: dto report_update_def)
  show "r_thigh_left (fst dto) = r_thigh_left old" if "json_get body ''thigh_left'' = None"
    using zod_number_optional_SomeD [OF f(6)] that by (simp add: dto report_update_def)
  show "r_thigh_right (fst dto) = r_thigh_right old" if "json_get body ''thigh_right'' = None"
    using zod_number_optional_SomeD [OF f(7)] that by (simp add: dto report_update_def)
  show "r_cardio_days (fst dto) = r_cardio_days old" if "json_get body ''cardio_days'' = None"
    using zod_int_optional_SomeD [OF f(8)] that by (simp add: dto report_update_def)
  show "r_note (fst dto) = r_note old" if "json_get body ''note'' = None"
    using zod_string_optional_SomeD [OF f(9)] that by (simp add: dto report_update_def)
  show "\<forall>s. json_get body ''note'' = Some (JStr s) \<longrightarrow> r_note (fst dto) = Some s"
    using zod_string_optional_SomeD [OF f(9)] by (simp add: dto report_update_def)
next
  assume n: "json_get body ''note'' = Some JNull"
  then have none: "EditReportSchema body = None" by (rule EditReportSchema_null_note)
  then show "\<not> succeeds (reports_PATCH d now user reportId body)"
    by (auto simp: reports_PATCH_def succeeds_def split: option.splits)
  show "reports_PATCH d now (Some u) reportId body = Inl ZodError"
    if "fetchReport d reportId = Some old
        \<and> (au_role u = super_admin
             \<or> (au_role u = client \<and> au_id u = r_client_id old
                 \<and> canEditReport now (r_created_at old) (r_sequence old)))"
    using that none by (auto simp: reports_PATCH_def checkReportAccess_def)
qed

text \<open>The claim as first stated, that an explicit \<open>null\<close> note succeeds and clears the
  note, fails for an administrator's edit of a stored report.\<close>

theorem edit_null_note_counterexample:
  "reports_PATCH ex_db 1710144000000 (Some ex_admin) ''r1'' (JObj [(''note'', JNull)]) = Inl ZodError
   \<and> statusCode ZodError = 400"
  by (simp add: reports_PATCH_def checkReportAccess_def ex_fetch_r1 ex_admin_def
      EditReportSchema_def)

theorem edit_partial_update_witness:
  "reports_PATCH ex_db 1710144001000 (Some ex_client) ''r1'' (JObj [(''weight'', JNum 72)]) =
     Inr ((report_update ex_patch (ex_report ''r1'' 1710144000000 11 0 (Some 70) None),
           fetchImages ex_db ''r1''),
          ex_db\<lparr>reports := map (\<lambda>x. if r_id x = ''r1'' then report_update ex_patch x else x)
                               (reports ex_db)\<rparr>)
   \<and> r_waist (report_update ex_patch (ex_report ''r1'' 1710144000000 11 0 (Some 70) None)) = Some 80
   \<and> r_note (report_update ex_patch (ex_report ''r1'' 1710144000000 11 0 (Some 70) None)) = Some ''first''
   \<and> \<not> succeeds (reports_PATCH ex_db 1710144001000 (Some ex_client) ''r1'' (JObj [(''note'', JNull)]))"
proof -
  have who: "au_role ex_client = super_admin
              \<or> (au_role ex_client = client
                  \<and> au_id ex_client = r_client_id (ex_report ''r1'' 1710144000000 11 0 (Some 70) None)
                  \<and> canEditReport 1710144001000
                        (r_created_at (ex_report ''r1'' 1710144000000 11 0 (Some 70) None))
                        (r_sequence (ex_report ''r1'' 1710144000000 11 0 (Some 70) None)))"
    by (simp add: ex_client_def ex_report_def canEditReport_iff)
  note ok = reports_PATCH_permitted [OF ex_fetch_r1 ex_distinct who ex_parse ex_patch_fields]
  have absent: "json_get (JObj [(''weight'', JNum 72)]) ''waist'' = None"
    "json_get (JObj [(''weight'', JNum 72)]) ''note'' = None"
    by simp_all
  have null: "json_get (JObj [(''note'', JNull)]) ''note'' = Some JNull"
    by simp
  have old: "r_waist (ex_report ''r1'' 1710144000000 11 0 (Some 70) None) = Some 80"
    "r_note (ex_report ''r1'' 1710144000000 11 0 (Some 70) None) = Some ''first''"
    by (simp_all add: ex_report_def)
  have A: "(json_get (JObj [(''weight'', JNum 72)]) ''waist'' = None
          \<longrightarrow> r_waist (report_update ex_patch (ex_report ''r1'' 1710144000000 11 0 (Some 70) None))
              = r_waist (ex_report ''r1'' 1710144000000 11 0 (Some 70) None))
        \<and> (json_get (JObj [(''weight'', JNum 72)]) ''note'' = None
          \<longrightarrow> r_note (report_update ex_patch (ex_report ''r1'' 1710144000000 11 0 (Some 70) None))
              = r_note (ex_report ''r1'' 1710144000000 11 0 (Some 70) None))"
    using edit_partial_update [THEN conjunct1, THEN mp, OF conjI [OF ok ex_fetch_r1]]
    by simp
  have B: "\<not> succeeds (reports_PATCH ex_db 1710144001000 (Some ex_client) ''r1'' (JObj [(''note'', JNull)]))"
    using edit_partial_update [THEN conjunct2, THEN mp, OF null] by (rule conjunct1)
  from A absent old B ok show ?thesis by simp
qed

subsection \<open>Activating and deactivating an assignment\<close>

lemma assignment_overwrite:
  "(a::assignment_row)\<lparr>is_active := True, started_at := now\<rparr> = \<lparr>started_at = now, is_active = True\<rparr>"
  by (cases a) simp

text \<open>The pair can be activated: it has a row, or the rows its insert refers to.\<close>

lemma activate_POST_result:
  assumes auth: "au_role u = super_admin \<or> au_id u = trainerId"
    and t: "userExists d trainerId trainer" and c: "userExists d clientId client"
    and fk: "trainer_client d (trainerId, clientId) \<noteq> None
             \<or> (trainerId \<in> set (trainers d) \<and> clientId \<in> set (clients d))"
  shows "activate_POST d now (Some u) trainerId clientId =
           Inr ((trainerId, clientId, \<lparr>started_at = now, is_active = True\<rparr>),
                d\<lparr>trainer_client :=
                    (trainer_client d)((trainerId, clientId) \<mapsto> \<lparr>started_at = now, is_active = True\<rparr>)\<rparr>)"
proof (cases "trainer_client d (trainerId, clientId)")
  case None
  with fk have "trainer_client_insert d trainerId clientId \<lparr>started_at = now, is_active = True\<rparr>
                  = Some ((trainer_client d)((trainerId, clientId) \<mapsto> \<lparr>started_at = now, is_active = True\<rparr>))"
    by (simp add: trainer_client_insert_def)
  with None auth t c show ?thesis
    by (auto simp: activate_POST_def Let_def)
next
  case (Some a)
  with auth t c show ?thesis
    by (auto simp: activate_POST_def Let_def assignment_overwrite)
qed

lemma activate_POST_refused:
  assumes auth: "au_role u = super_admin \<or> au_id u = trainerId"
    and t: "userExists d trainerId trainer" and c: "userExists d clientId client"
    and none: "trainer_client d (trainerId, clientId) = None"
    and fk: "\<not> (trainerId \<in> set (trainers d) \<and> clientId \<in> set (clients d))"
  shows "activate_POST d now (Some u) trainerId clientId
           = Inl (ApiException 500 ''Failed to create assignment'')"
proof -
  from none fk have "trainer_client_insert d trainerId clientId \<lparr>started_at = now, is_active = True\<rparr> = None"
    by (auto simp: trainer_client_insert_def)
  with none auth t c show ?thesis
    by (auto simp: activate_POST_def Let_def)
qed

lemma deactivate_POST_result:
  assumes auth: "au_role u = super_admin \<or> au_id u = trainerId"
    and t: "userExists d trainerId trainer" and c: "userExists d clientId client"
  shows "deactivate_POST d (Some u) trainerId clientId =
           (case trainer_client d (trainerId, clientId) of
              None \<Rightarrow> Inl (ApiException 404 ''Assignment not found'')
            | Some a \<Rightarrow>
                Inr ((trainerId, clientId, a\<lparr>is_active := False\<rparr>),
                     d\<lparr>trainer_client :=
                         (trainer_client d)((trainerId, clientId) \<mapsto> a\<lparr>is_active := False\<rparr>)\<rparr>))"
  using assms by (auto simp: deactivate_POST_def Let_def split: option.splits)

lemma user_not_found:
  assumes auth: "au_role u = super_admin \<or> au_id u = trainerId"
  shows "\<not> userExists d trainerId trainer \<Longrightarrow>
           activate_POST d now (Some u) trainerId clientId = Inl (ApiException 404 ''Trainer not found'')
         \<and> deactivate_POST d (Some u) trainerId clientId = Inl (ApiException 404 ''Trainer not found'')"
    and "userExists d trainerId trainer \<Longrightarrow> \<not> userExists d clientId client \<Longrightarrow>
           activate_POST d now (Some u) trainerId clientId = Inl (ApiException 404 ''Client not found'')
         \<and> deactivate_POST d (Some u) trainerId clientId = Inl (ApiException 404 ''Client not found'')"
  using auth by (auto simp: activate_POST_def deactivate_POST_def)

lemma userExists_trainer_client_update:
  "userExists (d\<lparr>trainer_client := m\<rparr>) i r = userExists d i r"
  by (simp add: userExists_def)

lemma activate_repeatedly_result:
  assumes auth: "au_role u = super_admin \<or> au_id u = trainerId"
    and t: "userExists d trainerId trainer" and c: "userExists d clientId client"
    and fk: "trainer_client d (trainerId, clientId) \<noteq> None
             \<or> (trainerId \<in> set (trainers d) \<and> clientId \<in> set (clients d))"
  shows "userExists (activate_repeatedly d (Some u) trainerId clientId nows) trainerId trainer
       \<and> userExists (activate_repeatedly d (Some u) trainerId clientId nows) clientId client
       \<and> (nows \<noteq> [] \<longrightarrow>
            trainer_client (activate_repeatedly d (Some u) trainerId clientId nows) (trainerId, clientId)
              = Some \<lparr>started_at = last nows, is_active = True\<rparr>)"
  using t c fk
proof (induction nows arbitrary: d)
  case Nil
  then show ?case by simp
next
  case (Cons now nows)
  let ?d1 = "d\<lparr>trainer_client :=
                (trainer_client d)((trainerId, clientId) \<mapsto> \<lparr>started_at = now, is_active = True\<rparr>)\<rparr>"
  have step: "state_after (activate_POST d now (Some u) trainerId clientId) d = ?d1"
    by (simp add: activate_POST_result [OF auth Cons.prems] state_after_def)
  have t1: "userExists ?d1 trainerId trainer" and c1: "userExists ?d1 clientId client"
    using Cons.prems by (simp_all add: userExists_trainer_client_update)
  have fk1: "trainer_client ?d1 (trainerId, clientId) \<noteq> None
             \<or> (trainerId \<in> set (trainers ?d1) \<and> clientId \<in> set (clients ?d1))"
    by simp
  from Cons.IH [OF t1 c1 fk1] show ?case
    by (cases nows) (simp_all add: step)
qed

text \<open>
  Claim C6, amended. For every coach and client whose \<open>users\<close> rows are live (stored
  with the roles trainer and client, not soft-deleted), the caller being the coach or
  an administrator: \<open>activate\<close> leaves the pair's row as
  \<open>is_active = true, started_at = now\<close>, overwriting both columns when there is a
  row and inserting it when there is none and the \<open>trainers\<close> and \<open>clients\<close> rows
  the insert refers to exist (without them the insert is refused and the answer is 500
  "Failed to create assignment"), so a second call with the same clock changes nothing
  more; \<open>deactivate\<close> fails with 404 "Assignment not found" when the pair has no row
  and otherwise sets \<open>is_active = false\<close>, after which the assignment is not active.
  After any non-empty run of activations the assignment is active, the deactivation
  succeeds and makes it inactive, and one more activation makes it active again with
  \<open>started_at\<close> the time of that call. When the trainer's or the client's \<open>users\<close>
  row is missing, of another role or soft-deleted, both operations fail with 404
  ("Trainer not found", "Client not found") before they read the assignment, so a row
  of the pair keeps its \<open>is_active\<close>.
\<close>

theorem assignment_activation:
  assumes auth: "au_role u = super_admin \<or> au_id u = trainerId"
  shows "(userExists d trainerId trainer \<and> userExists d clientId client
            \<and> (trainer_client d (trainerId, clientId) \<noteq> None
                 \<or> (trainerId \<in> set (trainers d) \<and> clientId \<in> set (clients d)))
          \<longrightarrow> activate_POST d now (Some u) trainerId clientId =
                 Inr ((trainerId, clientId, \<lparr>started_at = now, is_active = True\<rparr>),
                      d\<lparr>trainer_client :=
                          (trainer_client d)((trainerId, clientId) \<mapsto> \<lparr>started_at = now, is_active = True\<rparr>)\<rparr>)
              \<and> state_after (activate_POST (state_after (activate_POST d now (Some u) trainerId clientId) d)
                               now (Some u) trainerId clientId)
                    (state_after (activate_POST d now (Some u) trainerId clientId) d)
                  = state_after (activate_POST d now (Some u) trainerId clientId) d
              \<and> (nows \<noteq> []
                   \<longrightarrow> (let d1 = activate_repeatedly d (Some u) trainerId clientId nows;
                            d2 = state_after (deactivate_POST d1 (Some u) trainerId clientId) d1;
                            d3 = state_after (activate_POST d2 now (Some u) trainerId clientId) d2
                        in activeAssignment d1 trainerId clientId
                           \<and> succeeds (deactivate_POST d1 (Some u) trainerId clientId)
                           \<and> \<not> activeAssignment d2 trainerId clientId
                           \<and> activeAssignment d3 trainerId clientId
                           \<and> trainer_client d3 (trainerId, clientId)
                               = Some \<lparr>started_at = now, is_active = True\<rparr>)))
       \<and> (userExists d trainerId trainer \<and> userExists d clientId client
            \<and> trainer_client d (trainerId, clientId) = None
            \<and> \<not> (trainerId \<in> set (trainers d) \<and> clientId \<in> set (clients d))
          \<longrightarrow> activate_POST d now (Some u) trainerId clientId
                = Inl (ApiException 500 ''Failed to create assignment''))
       \<and> (userExists d trainerId trainer \<and> userExists d clientId client
            \<and> trainer_client d (trainerId, clientId) = None
          \<longrightarrow> deactivate_POST d (Some u) trainerId clientId
                = Inl (ApiException 404 ''Assignment not found''))
       \<and> (\<forall>a. userExists d trainerId trainer \<and> userExists d clientId client
              \<and> trainer_client d (trainerId, clientId) = Some a
          \<longrightarrow> deactivate_POST d (Some u) trainerId clientId
                = Inr ((trainerId, clientId, a\<lparr>is_active := False\<rparr>),
                       d\<lparr>trainer_client :=
                           (trainer_client d)((trainerId, clientId) \<mapsto> a\<lparr>is_active := False\<rparr>)\<rparr>)
              \<and> \<not> activeAssignment (state_after (deactivate_POST d (Some u) trainerId clientId) d)
                     trainerId clientId)
       \<and> (\<not> userExists d trainerId trainer
          \<longrightarrow> activate_POST d now (Some u) trainerId clientId = Inl (ApiException 404 ''Trainer not found'')
              \<and> deactivate_POST d (Some u) trainerId clientId = Inl (ApiException 404 ''Trainer not found'')
              \<and> state_after (deactivate_POST d (Some u) trainerId clientId) d = d)
       \<and> (userExists d trainerId trainer \<and> \<not> userExists d clientId client
          \<longrightarrow> activate_POST d now (Some u) trainerId clientId = Inl (ApiException 404 ''Client not found'')
              \<and> deactivate_POST d (Some u) trainerId clientId = Inl (ApiException 404 ''Client not found'')
              \<and> state_after (deactivate_POST d (Some u) trainerId clientId) d = d)"
proof (intro conjI impI allI)
  assume a: "userExists d trainerId trainer \<and> userExists d clientId client
            \<and> (trainer_client d (trainerId, clientId) \<noteq> None
                 \<or> (trainerId \<in> set (trainers d) \<and> clientId \<in> set (clients d)))"
  then have t: "userExists d trainerId trainer" and c: "userExists d clientId client"
    and fk: "trainer_client d (trainerId, clientId) \<noteq> None
             \<or> (trainerId \<in> set (trainers d) \<and> clientId \<in> set (clients d))"
    by simp_all
  note act = activate_POST_result [OF auth t c fk]
  show "activate_POST d now (Some u) trainerId clientId =
           Inr ((trainerId, clientId, \<lparr>started_at = now, is_active = True\<rparr>),
                d\<lparr>trainer_client :=
                    (trainer_client d)((trainerId, clientId) \<mapsto> \<lparr>started_at = now, is_active = True\<rparr>)\<rparr>)"
    by (rule act)
  let ?d1 = "d\<lparr>trainer_client :=
                (trainer_client d)((trainerId, clientId) \<mapsto> \<lparr>started_at = now, is_active = True\<rparr>)\<rparr>"
  have s1: "state_after (activate_POST d now (Some u) trainerId clientId) d = ?d1"
    by (simp add: act state_after_def)
  have t1: "userExists ?d1 trainerId trainer" and c1: "userExists ?d1 clientId client"
    using t c by (simp_all add: userExists_trainer_client_update)
  have fk1: "trainer_client ?d1 (trainerId, clientId) \<noteq> None
             \<or> (trainerId \<in> set (trainers ?d1) \<and> clientId \<in> set (clients ?d1))"
    by simp
  show "state_after (activate_POST (state_after (activate_POST d now (Some u) trainerId clientId) d)
                        now (Some u) trainerId clientId)
             (state_after (activate_POST d now (Some u) trainerId clientId) d)
           = state_after (activate_POST d now (Some u) trainerId clientId) d"
    unfolding s1 by (simp add: activate_POST_result [OF auth t1 c1 fk1] state_after_def)
  assume ne: "nows \<noteq> []"
  define d1 where "d1 = activate_repeatedly d (Some u) trainerId clientId nows"
  define d2 where "d2 = state_after (deactivate_POST d1 (Some u) trainerId clientId) d1"
  define d3 where "d3 = state_after (activate_POST d2 now (Some u) trainerId clientId) d2"
  from activate_repeatedly_result [OF auth t c fk, of nows] ne
  have t1: "userExists d1 trainerId trainer" and c1: "userExists d1 clientId client"
    and row1: "trainer_client d1 (trainerId, clientId) = Some \<lparr>started_at = last nows, is_active = True\<rparr>"
    by (simp_all add: d1_def)
  have deact: "deactivate_POST d1 (Some u) trainerId clientId =
      Inr ((trainerId, clientId, \<lparr>started_at = last nows, is_active = False\<rparr>),
           d1\<lparr>trainer_client :=
                (trainer_client d1)((trainerId, clientId) \<mapsto> \<lparr>started_at = last nows, is_active = False\<rparr>)\<rparr>)"
    by (simp add: deactivate_POST_result [OF auth t1 c1] row1)
  then have d2: "d2 = d1\<lparr>trainer_client :=
                (trainer_client d1)((trainerId, clientId) \<mapsto> \<lparr>started_at = last nows, is_active = False\<rparr>)\<rparr>"
    by (simp add: d2_def state_after_def)
  have t2: "userExists d2 trainerId trainer" and c2: "userExists d2 clientId client"
    using t1 c1 by (simp_all add: d2 userExists_trainer_client_update)
  have fk2: "trainer_client d2 (trainerId, clientId) \<noteq> None
             \<or> (trainerId \<in> set (trainers d2) \<and> clientId \<in> set (clients d2))"
    by (simp add: d2)
  have d3: "d3 = d2\<lparr>trainer_client :=
                (trainer_client d2)((trainerId, clientId) \<mapsto> \<lparr>started_at = now, is_active = True\<rparr>)\<rparr>"
    by (simp add: d3_def activate_POST_result [OF auth t2 c2 fk2] state_after_def)
  have "activeAssignment d1 trainerId clientId
        \<and> succeeds (deactivate_POST d1 (Some u) trainerId clientId)
        \<and> \<not> activeAssignment d2 trainerId clientId
        \<and> activeAssignment d3 trainerId clientId
        \<and> trainer_client d3 (trainerId, clientId) = Some \<lparr>started_at = now, is_active = True\<rparr>"
    by (simp add: activeAssignment_def row1 deact succeeds_def d2 d3)
  then show "let d1 = activate_repeatedly d (Some u) trainerId clientId nows;
                 d2 = state_after (deactivate_POST d1 (Some u) trainerId clientId) d1;
                 d3 = state_after (activate_POST d2 now (Some u) trainerId clientId) d2
             in activeAssignment d1 trainerId clientId
                \<and> succeeds (deactivate_POST d1 (Some u) trainerId clientId)
                \<and> \<not> activeAssignment d2 trainerId clientId
                \<and> activeAssignment d3 trainerId clientId
                \<and> trainer_client d3 (trainerId, clientId)
                    = Some \<lparr>started_at = now, is_active = True\<rparr>"
    unfolding Let_def d1_def [symmetric] d2_def [symmetric] d3_def [symmetric] .
next
  assume "userExists d trainerId trainer \<and> userExists d clientId client
            \<and> trainer_client d (trainerId, clientId) = None
            \<and> \<not> (trainerId \<in> set (trainers d) \<and> clientId \<in> set (clients d))"
  then show "activate_POST d now (Some u) trainerId clientId
                = Inl (ApiException 500 ''Failed to create assignment'')"
    using activate_POST_refused [OF auth] by blast
next
  assume "userExists d trainerId trainer \<and> userExists d clientId client
            \<and> trainer_client d (trainerId, clientId) = None"
  then show "deactivate_POST d (Some u) trainerId clientId
                  = Inl (ApiException 404 ''Assignment not found'')"
    using deactivate_POST_result [OF auth, of d clientId] by simp
next
  fix a assume a: "userExists d trainerId trainer \<and> userExists d clientId client
              \<and> trainer_client d (trainerId, clientId) = Some a"
  then have res: "deactivate_POST d (Some u) trainerId clientId
                  = Inr ((trainerId, clientId, a\<lparr>is_active := False\<rparr>),
                         d\<lparr>trainer_client :=
                             (trainer_client d)((trainerId, clientId) \<mapsto> a\<lparr>is_active := False\<rparr>)\<rparr>)"
    using deactivate_POST_result [OF auth, of d clientId] by simp
  show "deactivate_POST d (Some u) trainerId clientId
                  = Inr ((trainerId, clientId, a\<lparr>is_active := False\<rparr>),
                         d\<lparr>trainer_client :=
                             (trainer_client d)((trainerId, clientId) \<mapsto> a\<lparr>is_active := False\<rparr>)\<rparr>)"
    by (rule res)
  show "\<not> activeAssignment (state_after (deactivate_POST d (Some u) trainerId clientId) d)
                     trainerId clientId"
    by (simp add: res state_after_def activeAssignment_def)
next
  assume n: "\<not> userExists d trainerId trainer"
  note r = user_not_found(1) [OF auth n]
  show "activate_POST d now (Some u) trainerId clientId = Inl (ApiException 404 ''Trainer not found'')"
    using r by (rule conjunct1)
  show "deactivate_POST d (Some u) trainerId clientId = Inl (ApiException 404 ''Trainer not found'')"
    using r by (rule conjunct2)
  then show "state_after (deactivate_POST d (Some u) trainerId clientId) d = d"
    by (simp add: state_after_def)
next
  assume n: "userExists d trainerId trainer \<and> \<not> userExists d clientId client"
  then have t: "userExists d trainerId trainer" and c: "\<not> userExists d clientId client" by simp_all
  note r = user_not_found(2) [OF auth t c]
  show "activate_POST d now (Some u) trainerId clientId = Inl (ApiException 404 ''Client not found'')"
    using r by (rule conjunct1)
  show "deactivate_POST d (Some u) trainerId clientId = Inl (ApiException 404 ''Client not found'')"
    using r by (rule conjunct2)
  then show "state_after (deactivate_POST d (Some u) trainerId clientId) d = d"
    by (simp add: state_after_def)
qed

text \<open>The claim as first stated fails on two stored pairs. The coach's assignment with a
  client who has since been soft-deleted has a row, and it is active; \<open>deactivate\<close>
  answers 404 "Client not found" and the row stays active. And a pair with no row whose
  trainer has no \<open>trainers\<close> row is not inserted by \<open>activate\<close>, which answers 500.\<close>

theorem deactivate_deleted_client_counterexample:
  "trainer_client ex_db_deleted_client (''coach'', ''c1'') = Some \<lparr>started_at = 0, is_active = True\<rparr>
   \<and> error_of (deactivate_POST ex_db_deleted_client (Some ex_coach) ''coach'' ''c1'')
       = Some (ApiException 404 ''Client not found'')
   \<and> activeAssignment
        (state_after (deactivate_POST ex_db_deleted_client (Some ex_coach) ''coach'' ''c1'')
           ex_db_deleted_client) ''coach'' ''c1''
   \<and> trainer_client ex_db_role_changed (''u2'', ''c1'') = None
   \<and> error_of (activate_POST ex_db_role_changed 1710150000000 (Some ex_admin) ''u2'' ''c1'')
       = Some (ApiException 500 ''Failed to create assignment'')"
  by (simp add: ex_db_deleted_client_def ex_db_role_changed_def ex_db_def ex_users_def
      ex_coach_def ex_admin_def deactivate_POST_def activate_POST_def userExists_def
      trainer_client_insert_def error_of_def state_after_def activeAssignment_def)

lemma ex_userExists:
  "userExists ex_db ''coach'' trainer" "userExists ex_db ''c1'' client"
  by (simp_all add: userExists_def ex_db_def ex_users_def)

theorem assignment_activation_witness:
  "deactivate_POST (ex_db\<lparr>trainer_client := Map.empty\<rparr>) (Some ex_coach) ''coach'' ''c1''
     = Inl (ApiException 404 ''Assignment not found'')
   \<and> (let d1 = activate_repeatedly (ex_db\<lparr>trainer_client := Map.empty\<rparr>) (Some ex_coach) ''coach'' ''c1'' [5, 6, 7];
          d2 = state_after (deactivate_POST d1 (Some ex_coach) ''coach'' ''c1'') d1;
          d3 = state_after (activate_POST d2 9 (Some ex_coach) ''coach'' ''c1'') d2
       in activeAssignment d1 ''coach'' ''c1''
          \<and> succeeds (deactivate_POST d1 (Some ex_coach) ''coach'' ''c1'')
          \<and> \<not> activeAssignment d2 ''coach'' ''c1''
          \<and> activeAssignment d3 ''coach'' ''c1''
          \<and> trainer_client d3 (''coach'', ''c1'') = Some \<lparr>started_at = 9, is_active = True\<rparr>)
   \<and> deactivate_POST ex_db_deleted_client (Some ex_coach) ''coach'' ''c1''
       = Inl (ApiException 404 ''Client not found'')
   \<and> activate_POST ex_db_role_changed 9 (Some ex_admin) ''u2'' ''c1''
       = Inl (ApiException 500 ''Failed to create assignment'')"
proof -
  let ?d0 = "ex_db\<lparr>trainer_client := Map.empty\<rparr>"
  have auth: "au_role ex_coach = super_admin \<or> au_id ex_coach = ''coach''"
    by (simp add: ex_coach_def)
  have admin: "au_role ex_admin = super_admin \<or> au_id ex_admin = ''u2''"
    by (simp add: ex_admin_def)
  have u0: "userExists ?d0 ''coach'' trainer" "userExists ?d0 ''c1'' client"
    using ex_userExists by (simp_all add: userExists_trainer_client_update)
  have fk0: "''coach'' \<in> set (trainers ?d0) \<and> ''c1'' \<in> set (clients ?d0)"
    by (simp add: ex_db_def)
  have live0: "userExists ?d0 ''coach'' trainer \<and> userExists ?d0 ''c1'' client
               \<and> (trainer_client ?d0 (''coach'', ''c1'') \<noteq> None
                    \<or> (''coach'' \<in> set (trainers ?d0) \<and> ''c1'' \<in> set (clients ?d0)))"
    using u0 fk0 by blast
  have none0: "userExists ?d0 ''coach'' trainer \<and> userExists ?d0 ''c1'' client
               \<and> trainer_client ?d0 (''coach'', ''c1'') = None"
    using u0 by simp
  have gone: "userExists ex_db_deleted_client ''coach'' trainer
              \<and> \<not> userExists ex_db_deleted_client ''c1'' client"
    by (simp add: userExists_def ex_db_deleted_client_def ex_users_def)
  have changed: "userExists ex_db_role_changed ''u2'' trainer \<and> userExists ex_db_role_changed ''c1'' client
                 \<and> trainer_client ex_db_role_changed (''u2'', ''c1'') = None
                 \<and> \<not> (''u2'' \<in> set (trainers ex_db_role_changed) \<and> ''c1'' \<in> set (clients ex_db_role_changed))"
    by (simp add: userExists_def ex_db_role_changed_def ex_db_def ex_users_def)
  have ne: "[5, 6, 7] \<noteq> ([]::timestamp list)" by simp
  note T0 = assignment_activation [OF auth, where d = ?d0 and clientId = "''c1''"
      and nows = "[5, 6, 7]" and now = 9]
  note T1 = assignment_activation [OF auth, where d = ex_db_deleted_client and clientId = "''c1''"]
  note T2 = assignment_activation [OF admin, where d = ex_db_role_changed and clientId = "''c1''"
      and now = 9]
  have 1: "deactivate_POST ?d0 (Some ex_coach) ''coach'' ''c1''
             = Inl (ApiException 404 ''Assignment not found'')"
    using T0 [THEN conjunct2, THEN conjunct2, THEN conjunct1, THEN mp, OF none0] .
  have 2: "let d1 = activate_repeatedly ?d0 (Some ex_coach) ''coach'' ''c1'' [5, 6, 7];
          d2 = state_after (deactivate_POST d1 (Some ex_coach) ''coach'' ''c1'') d1;
          d3 = state_after (activate_POST d2 9 (Some ex_coach) ''coach'' ''c1'') d2
       in activeAssignment d1 ''coach'' ''c1''
          \<and> succeeds (deactivate_POST d1 (Some ex_coach) ''coach'' ''c1'')
          \<and> \<not> activeAssignment d2 ''coach'' ''c1''
          \<and> activeAssignment d3 ''coach'' ''c1''
          \<and> trainer_client d3 (''coach'', ''c1'') = Some \<lparr>started_at = 9, is_active = True\<rparr>"
    using T0 [THEN conjunct1, THEN mp, OF live0, THEN conjunct2, THEN conjunct2, THEN mp, OF ne] .
  have 3: "deactivate_POST ex_db_deleted_client (Some ex_coach) ''coach'' ''c1''
       = Inl (ApiException 404 ''Client not found'')"
    using T1 [THEN conjunct2, THEN conjunct2, THEN conjunct2, THEN conjunct2, THEN conjunct2,
        THEN mp, OF gone, THEN conjunct2, THEN conjunct1] .
  have 4: "activate_POST ex_db_role_changed 9 (Some ex_admin) ''u2'' ''c1''
       = Inl (ApiException 500 ''Failed to create assignment'')"
    using T2 [THEN conjunct2, THEN conjunct1, THEN mp, OF changed] .
  from 1 2 3 4 show ?thesis by blast
qed

subsection \<open>Image upload requests\<close>











subsection \<open>The week of a report\<close>

text \<open>A report submitted on 2024-12-30 is stored with the calendar year 2024, and with
  week 1, by the table's trigger.\<close>

lemma submit_on_2024_12_30:
  "map (\<lambda>r. (r_year r, r_week_number r))
     (reports (state_after (client_reports_POST ex_empty 1735560000000 ''r1'' (Some ex_client) ''c1''
                              (JObj [(''weight'', JNum 70)])) ex_empty))
   = [(2024, 1)]"
  by code_simp

text \<open>
  Claim C1. The (year, week number) pair of a new report is to be derived from the
  submission time by ISO 8601 week numbering, so that a report of late December or
  early January can carry the adjacent ISO year, by one function shared by submission
  and query. The code does not do this. At 2024-12-30T12:00:00Z, a Monday, ISO 8601
  gives week 1 of 2025; \<open>getCurrentWeekInfo\<close>, whose comment names ISO 8601, gives
  week 53 of the calendar year 2024; the dashboard's \<open>getISOWeek\<close> gives week 1; and
  the insert trigger stores week 1 with the calendar year 2024. At
  2025-03-10T08:00:00Z, ISO week 11, \<open>getCurrentWeekInfo\<close> gives week 10.
\<close>

theorem week_info_is_not_iso:
  "getCurrentWeekInfo 1735560000000 = \<lparr>year = 2024, weekNumber = 53\<rparr>
   \<and> iso8601_week_info 1735560000000 = \<lparr>year = 2025, weekNumber = 1\<rparr>
   \<and> getISOWeek 1735560000000 = 1
   \<and> pg_extract_year 1735560000000 = 2024 \<and> pg_extract_week 1735560000000 = 1
   \<and> getCurrentWeekInfo 1741593600000 = \<lparr>year = 2025, weekNumber = 10\<rparr>
   \<and> iso8601_week_info 1741593600000 = \<lparr>year = 2025, weekNumber = 11\<rparr>"
  by code_simp

subsection \<open>The weekly quota\<close>

text \<open>With two or more non-deleted reports of the client stored under the week the
  handler computes, a valid submission by the client fails with 409.\<close>

lemma weekly_quota_conflict:
  assumes "au_role u = client" and "au_id u = clientId" and "userExists d clientId client"
    and "SubmitReportSchema body = Some data"
    and "length (filter (\<lambda>r. r_client_id r = clientId \<and> r_year r = year (getCurrentWeekInfo now)
                              \<and> r_week_number r = weekNumber (getCurrentWeekInfo now)
                              \<and> r_deleted_at r = None) (reports d)) \<ge> 2"
  shows "client_reports_POST d now newId (Some u) clientId body
           = Inl (ApiException 409 ''Maximum 2 reports per week exceeded'')"
  using assms by (simp add: client_reports_POST_def Let_def)

text \<open>The scenario of 2025-03-10: the first report is stored under week 11 by the
  trigger, the handler counts under its own week 10 an hour later, finds none, and the
  second insert collides with the first.\<close>

lemma spec_scenario_2025_03_10:
  "(let body = JObj [(''weight'', JNum 70)];
        first = client_reports_POST ex_empty 1741593600000 ''r1'' (Some ex_client) ''c1'' body;
        d1 = state_after first ex_empty;
        second = client_reports_POST d1 1741597200000 ''r2'' (Some ex_client) ''c1'' body
    in map (\<lambda>r. (r_year r, r_week_number r, r_sequence r)) (reports d1) = [(2025, 11, 0)]
       \<and> getCurrentWeekInfo 1741597200000 = \<lparr>year = 2025, weekNumber = 10\<rparr>
       \<and> error_of second = Some (ApiException 500 ''Failed to create report''))"
  by code_simp

text \<open>
  Claim C2. With fewer than two non-deleted reports stored for the client and week, a
  submission is to be persisted with sequence equal to that count. The code fails to
  do so once a report of the week has been soft-deleted: the count leaves the deleted
  row out, the uniqueness constraint on (client, week, year, sequence) does not, and
  the insert is refused. On 2024-03-11 the client submits (sequence 0), soft-deletes
  that report, and submits again: no non-deleted report of week 11 is left, yet the
  second submission fails with 500 "Failed to create report".
\<close>

theorem resubmit_after_delete_fails:
  "(let body = JObj [(''weight'', JNum 70)];
        first = client_reports_POST ex_empty 1710144000000 ''r1'' (Some ex_client) ''c1'' body;
        d1 = state_after first ex_empty;
        deleted = reports_DELETE d1 1710144060000 (Some ex_client) ''r1'';
        d2 = (case deleted of Inl e \<Rightarrow> d1 | Inr d \<Rightarrow> d);
        wi = getCurrentWeekInfo 1710144120000
    in succeeds first
       \<and> map r_sequence (reports d1) = [0]
       \<and> succeeds deleted
       \<and> (year wi, weekNumber wi) = (2024, 11)
       \<and> length (filter (\<lambda>r. r_client_id r = ''c1'' \<and> r_year r = year wi
                                \<and> r_week_number r = weekNumber wi \<and> r_deleted_at r = None)
                   (reports d2)) = 0
       \<and> error_of (client_reports_POST d2 1710144120000 ''r2'' (Some ex_client) ''c1'' body)
           = Some (ApiException 500 ''Failed to create report''))"
  by code_simp


theorem resubmit_after_delete_fails_witness:
  "fails_with 500
     (client_reports_POST
        (case reports_DELETE
                (state_after (client_reports_POST ex_empty 1710144000000 ''r1'' (Some ex_client) ''c1''
                                (JObj [(''weight'', JNum 70)])) ex_empty)
                1710144060000 (Some ex_client) ''r1'' of
           Inl e \<Rightarrow> state_after (client_reports_POST ex_empty 1710144000000 ''r1'' (Some ex_client) ''c1''
                                (JObj [(''weight'', JNum 70)])) ex_empty
         | Inr d \<Rightarrow> d)
        1710144120000 ''r2'' (Some ex_client) ''c1'' (JObj [(''weight'', JNum 70)]))"
  using resubmit_after_delete_fails
  by (auto simp: Let_def fails_with_def error_of_def split: sum.splits)

subsection \<open>Trends\<close>

lemma init_trends_fold:
  "map_of (fold (\<lambda>metric t. AList.update metric [] t) ms t0) m
     = (if m \<in> set ms then Some [] else map_of t0 m)"
  by (induction ms arbitrary: t0) (auto simp: update_conv')

lemma init_trends_distinct_fold:
  "distinct (map fst t0) \<Longrightarrow> distinct (map fst (fold (\<lambda>metric t. AList.update metric [] t) ms t0))"
  by (induction ms arbitrary: t0) (simp_all add: distinct_update)

lemma map_of_init_trends:
  "map_of (init_trends ms) m = (if m \<in> set ms then Some [] else None)"
  by (simp add: init_trends_def init_trends_fold)

lemma distinct_init_trends: "distinct (map fst (init_trends ms))"
  by (simp add: init_trends_def init_trends_distinct_fold)

lemma map_of_push_report:
  "map_of (push_report ms r t) m = map_option (\<lambda>arr. arr @ pushed_once ms m r) (map_of t m)"
  unfolding push_report_def
proof (induction ms arbitrary: t)
  case Nil
  show ?case by (cases "map_of t m") (simp_all add: pushed_once_def split: option.splits)
next
  case (Cons x xs)
  show ?case
  proof (cases "report_get r x")
    case None
    then show ?thesis
      using Cons.IH [of t] by (auto simp: pushed_once_def split: option.splits)
  next
    case (Some v)
    show ?thesis
    proof (cases "x = m")
      case True
      with Some Cons.IH [of "AList.map_entry x (\<lambda>trendsArray. trendsArray @ [v]) t"]
      show ?thesis
        by (cases "map_of t m")
           (simp_all add: pushed_once_def map_of_map_entry replicate_append_same
             split: option.splits)
    next
      case False
      with Some Cons.IH [of "AList.map_entry x (\<lambda>trendsArray. trendsArray @ [v]) t"]
      show ?thesis
        by (simp add: pushed_once_def map_of_map_entry split: option.splits)
    qed
  qed
qed

lemma distinct_push_report:
  "distinct (map fst t) \<Longrightarrow> distinct (map fst (push_report ms r t))"
  unfolding push_report_def
  by (induction ms arbitrary: t) (auto simp: distinct_map_entry split: option.splits)

lemma map_of_fold_push_report:
  "map_of (fold (push_report ms) rs t) m
     = map_option (\<lambda>arr. arr @ pushed_values ms m rs) (map_of t m)"
proof (induction rs arbitrary: t)
  case Nil
  show ?case by (cases "map_of t m") (simp_all add: pushed_values_def)
next
  case (Cons r rs)
  have "pushed_values ms m (r # rs) = pushed_once ms m r @ pushed_values ms m rs"
    by (simp add: pushed_values_def pushed_once_def)
  then show ?case
    using Cons.IH [of "push_report ms r t"]
    by (cases "map_of t m") (simp_all add: map_of_push_report)
qed

lemma distinct_fold_push_report:
  "distinct (map fst t) \<Longrightarrow> distinct (map fst (fold (push_report ms) rs t))"
  by (induction rs arbitrary: t) (simp_all add: distinct_push_report)

lemma remove_empty_filter: "remove_empty t = filter (\<lambda>(k, arr). arr \<noteq> []) t"
  by (induction t) (auto simp: remove_empty_def List.map_filter_simps)

lemma map_of_remove_empty:
  assumes "distinct (map fst t)"
  shows "map_of (remove_empty t) m
           = (case map_of t m of None \<Rightarrow> None | Some arr \<Rightarrow> if arr = [] then None else Some arr)"
  using assms
proof (induction t)
  case Nil
  show ?case by (simp add: remove_empty_filter)
next
  case (Cons p t)
  obtain k arr where p: "p = (k, arr)" by (cases p)
  from Cons.prems p have notin: "k \<notin> fst ` set t" and dist: "distinct (map fst t)" by auto
  have ih: "map_of (filter (\<lambda>(k, arr). arr \<noteq> []) t) m
           = (case map_of t m of None \<Rightarrow> None | Some arr \<Rightarrow> if arr = [] then None else Some arr)"
    using Cons.IH [OF dist] by (simp add: remove_empty_filter)
  show ?case
  proof (cases "k = m")
    case True
    with notin have "map_of t m = None" by (simp add: map_of_eq_None_iff)
    with ih True p show ?thesis by (simp add: remove_empty_filter)
  next
    case False
    with ih p show ?thesis by (simp add: remove_empty_filter)
  qed
qed

lemma trends_value:
  "map_of (remove_empty (fold (push_report ms) rs (init_trends ms))) m
     = (if m \<in> set ms \<and> pushed_values ms m rs \<noteq> [] then Some (pushed_values ms m rs) else None)"
  by (simp add: map_of_remove_empty distinct_fold_push_report distinct_init_trends
      map_of_fold_push_report map_of_init_trends)

lemma trend_of_trends_GET:
  "trend_of m (trends_GET d user c q) =
     (case user of
        None \<Rightarrow> None
      | Some u \<Rightarrow>
          if \<not> checkTrendsAccess d (au_id u) (au_role u) c then None
          else if \<not> userExists d c client then None
          else (case TrendsQuerySchema q of
                  None \<Rightarrow> None
                | Some metrics \<Rightarrow>
                    (let ms = (case metrics of None \<Rightarrow> allMetrics | Some ms \<Rightarrow> ms)
                     in if m \<in> set ms \<and> pushed_values ms m (trend_reports d c) \<noteq> []
                        then Some (pushed_values ms m (trend_reports d c)) else None)))"
  by (simp add: trends_GET_def trend_of_def trends_value Let_def split: option.splits)

lemma pushed_values_filter:
  "pushed_values ms m rs = pushed_values ms m (filter (\<lambda>r. report_get r m \<noteq> None) rs)"
  by (induction rs) (auto simp: pushed_values_def)

lemma pushed_values_trend_reports_append:
  assumes "report_get s m = None"
  shows "pushed_values ms m (trend_reports (d\<lparr>reports := reports d @ [s]\<rparr>) c)
           = pushed_values ms m (trend_reports d c)"
proof -
  let ?Q = "\<lambda>r. report_get r m \<noteq> None"
  let ?P = "\<lambda>r. r_client_id r = c \<and> r_deleted_at r = None"
  have "filter ?Q (filter ?P (reports d @ [s])) = filter ?Q (filter ?P (reports d))"
    using assms by simp
  then have "filter ?Q (sort_key r_created_at (filter ?P (reports d @ [s])))
               = filter ?Q (sort_key r_created_at (filter ?P (reports d)))"
    by (simp only: filter_sort)
  then have "filter ?Q (trend_reports (d\<lparr>reports := reports d @ [s]\<rparr>) c)
               = filter ?Q (trend_reports d c)"
    by (simp add: trend_reports_def)
  then show ?thesis
    using pushed_values_filter [of ms m "trend_reports (d\<lparr>reports := reports d @ [s]\<rparr>) c"]
      pushed_values_filter [of ms m "trend_reports d c"]
    by simp
qed

lemma checkTrendsAccess_reports:
  "checkTrendsAccess (d\<lparr>reports := rows\<rparr>) i r c = checkTrendsAccess d i r c"
  by (simp add: checkTrendsAccess_def activeAssignment_def)

lemma userExists_reports:
  "userExists (d\<lparr>reports := rows\<rparr>) i r = userExists d i r"
  by (simp add: userExists_def)

lemma trend_of_after_append:
  assumes "report_get s m = None"
  shows "trend_of m (trends_GET (d\<lparr>reports := reports d @ [s]\<rparr>) viewer c q)
           = trend_of m (trends_GET d viewer c q)"
  by (simp add: trend_of_trends_GET pushed_values_trend_reports_append [OF assms]
      checkTrendsAccess_reports userExists_reports split: option.splits)


text \<open>When no metric is named twice, the array of a requested metric is the metric's
  non-null values over the client's non-deleted reports in the order of their creation,
  and a metric with no value has no array.\<close>

lemma pushed_values_distinct:
  assumes "distinct ms" and "m \<in> set ms"
  shows "pushed_values ms m rs = List.map_filter (\<lambda>r. report_get r m) rs"
proof -
  from assms have one: "count_list ms m = 1"
    by (induction ms) auto
  show ?thesis
    by (induction rs) (simp_all add: pushed_values_def one List.map_filter_simps split: option.splits)
qed

lemma trends_distinct_metrics:
  assumes access: "checkTrendsAccess d (au_id u) (au_role u) c" and exists: "userExists d c client"
    and parse: "TrendsQuerySchema q = Some metrics"
    and ms: "ms = (case metrics of None \<Rightarrow> allMetrics | Some l \<Rightarrow> l)"
    and dist: "distinct ms"
  shows "trend_of m (trends_GET d (Some u) c q) =
           (if m \<in> set ms \<and> List.map_filter (\<lambda>r. report_get r m) (trend_reports d c) \<noteq> []
            then Some (List.map_filter (\<lambda>r. report_get r m) (trend_reports d c)) else None)"
  using access exists parse ms pushed_values_distinct [OF dist]
  by (auto simp: trend_of_trends_GET Let_def)

text \<open>
  Claim C8. For each requested metric the trends hold the array of that metric's
  non-null values over the non-deleted reports in ascending order of creation, so
  weights 70, none, 68 give 70, 68. The code does so for \<open>metrics=weight\<close>, but a
  metric named twice in the query, which \<open>TrendsQuerySchema\<close> accepts, has every value
  pushed twice: \<open>metrics=weight,weight\<close> gives 70, 70, 68, 68.
\<close>

theorem trends_repeat_values:
  "trends_GET ex_db_weights (Some ex_client) ''c1'' (Some ''weight'') = Inr [(''weight'', [70, 68])]
   \<and> trends_GET ex_db_weights (Some ex_client) ''c1'' (Some ''weight,weight'')
       = Inr [(''weight'', [70, 70, 68, 68])]"
  by code_simp

subsection \<open>Zero measurements and empty notes\<close>

lemma client_reports_POST_InrD:
  assumes ok: "client_reports_POST d now newId user clientId body = Inr ((stored, imgs), d')"
    and parse: "SubmitReportSchema body = Some data"
  shows "d' = d\<lparr>reports := reports d @ [stored]\<rparr>" and "imgs = []"
    and "r_weight stored = or_null (d_weight data)"
    and "r_waist stored = or_null (d_waist data)"
    and "r_chest stored = or_null (d_chest data)"
    and "r_biceps_left stored = or_null (d_biceps_left data)"
    and "r_biceps_right stored = or_null (d_biceps_right data)"
    and "r_thigh_left stored = or_null (d_thigh_left data)"
    and "r_thigh_right stored = or_null (d_thigh_right data)"
    and "r_cardio_days stored = or_null (d_cardio_days data)"
    and "r_note stored = or_null_str (d_note data)"
proof -
  from ok parse obtain row rows where
    ins: "reports_insert d row = Some (stored, rows)"
    and d': "d' = d\<lparr>reports := rows\<rparr>" and imgs: "imgs = []"
    and row: "r_weight row = or_null (d_weight data)" "r_waist row = or_null (d_waist data)"
      "r_chest row = or_null (d_chest data)" "r_biceps_left row = or_null (d_biceps_left data)"
      "r_biceps_right row = or_null (d_biceps_right data)" "r_thigh_left row = or_null (d_thigh_left data)"
      "r_thigh_right row = or_null (d_thigh_right data)" "r_cardio_days row = or_null (d_cardio_days data)"
      "r_note row = or_null_str (d_note data)"
    by (simp add: client_reports_POST_def Let_def split: option.splits if_splits prod.splits)
  from ins have st: "stored = set_report_week_and_year row" and rows: "rows = reports d @ [stored]"
    by (auto simp: reports_insert_def Let_def split: if_splits)
  show "d' = d\<lparr>reports := reports d @ [stored]\<rparr>" using d' rows by simp
  show "imgs = []" by (rule imgs)
  show "r_weight stored = or_null (d_weight data)"
    and "r_waist stored = or_null (d_waist data)"
    and "r_chest stored = or_null (d_chest data)"
    and "r_biceps_left stored = or_null (d_biceps_left data)"
    and "r_biceps_right stored = or_null (d_biceps_right data)"
    and "r_thigh_left stored = or_null (d_thigh_left data)"
    and "r_thigh_right stored = or_null (d_thigh_right data)"
    and "r_cardio_days stored = or_null (d_cardio_days data)"
    and "r_note stored = or_null_str (d_note data)"
    using row by (simp_all add: st set_report_week_and_year_def)
qed

lemma or_null_of_int: "map_option of_int (or_null (x::int option)) = or_null (map_option rat_of_int x)"
  by (cases x) simp_all

lemma report_get_stored:
  assumes ok: "client_reports_POST d now newId user clientId body = Inr ((stored, imgs), d')"
    and parse: "SubmitReportSchema body = Some data"
  shows "report_get stored metric = or_null (data_get data metric)"
  using client_reports_POST_InrD(3-10) [OF ok parse]
  by (simp add: report_get_def data_get_def or_null_of_int)

lemma client_reports_POST_omit_falsy:
  assumes parse: "SubmitReportSchema body = Some data"
    and parse': "SubmitReportSchema body' = Some data'"
    and same: "omit_falsy data' = omit_falsy data"
  shows "client_reports_POST d now newId user clientId body'
           = client_reports_POST d now newId user clientId body"
proof -
  have "or_null (d_weight data') = or_null (d_weight data)"
    and "or_null (d_waist data') = or_null (d_waist data)"
    and "or_null (d_chest data') = or_null (d_chest data)"
    and "or_null (d_biceps_left data') = or_null (d_biceps_left data)"
    and "or_null (d_biceps_right data') = or_null (d_biceps_right data)"
    and "or_null (d_thigh_left data') = or_null (d_thigh_left data)"
    and "or_null (d_thigh_right data') = or_null (d_thigh_right data)"
    and "or_null (d_cardio_days data') = or_null (d_cardio_days data)"
    and "or_null_str (d_note data') = or_null_str (d_note data)"
    using same by (simp_all add: omit_falsy_def)
  then show ?thesis
    by (cases user) (simp_all add: client_reports_POST_def parse parse' Let_def)
qed

text \<open>
  Claim C9. For every submission whose body passes \<open>SubmitReportSchema\<close> and is
  stored: the stored row is appended to \<open>reports\<close>; every measurement supplied as 0
  (the schema accepts 0 for all eight) is stored as null, and the trends array of that
  metric is, for every viewer, client and query, the same after the submission as
  before it; a note supplied as the empty string is stored as null; and a body that
  differs only by leaving out zero measurements or an empty note gets the very same
  response, so the stored report does not tell a reported 0 from an omitted field.
\<close>

theorem zero_is_stored_as_null:
  assumes parse: "SubmitReportSchema body = Some data"
    and ok: "client_reports_POST d now newId user clientId body = Inr ((stored, imgs), d')"
  shows "reports d' = reports d @ [stored]
       \<and> (\<forall>metric. data_get data metric = Some 0
            \<longrightarrow> report_get stored metric = None
              \<and> (\<forall>viewer c q. trend_of metric (trends_GET d' viewer c q)
                                = trend_of metric (trends_GET d viewer c q)))
       \<and> (d_note data = Some [] \<longrightarrow> r_note stored = None)
       \<and> (\<forall>body' data'. SubmitReportSchema body' = Some data' \<and> omit_falsy data' = omit_falsy data
            \<longrightarrow> client_reports_POST d now newId user clientId body'
                  = client_reports_POST d now newId user clientId body)"
proof (intro conjI allI impI)
  note facts = client_reports_POST_InrD [OF ok parse]
  show "reports d' = reports d @ [stored]"
    using facts(1) by simp
  show "r_note stored = None" if "d_note data = Some []"
    using facts(11) that by simp
  fix metric assume zero: "data_get data metric = Some 0"
  then show null: "report_get stored metric = None"
    by (simp add: report_get_stored [OF ok parse])
  fix viewer c q
  show "trend_of metric (trends_GET d' viewer c q) = trend_of metric (trends_GET d viewer c q)"
    unfolding facts(1) using null by (rule trend_of_after_append)
next
  fix body' data'
  assume "SubmitReportSchema body' = Some data' \<and> omit_falsy data' = omit_falsy data"
  then show "client_reports_POST d now newId user clientId body'
                  = client_reports_POST d now newId user clientId body"
    using client_reports_POST_omit_falsy [OF parse] by blast
qed


lemma ex_zero_parse: "SubmitReportSchema ex_zero_body = Some ex_zero_data"
  by (simp add: SubmitReportSchema_def ex_zero_body_def ex_zero_data_def is_whole_def)

lemma ex_no_parse: "SubmitReportSchema (JObj []) = Some ex_no_data"
  by (simp add: SubmitReportSchema_def ex_no_data_def)

lemma ex_week_2024_03_11:
  "getCurrentWeekInfo 1710144000000 = \<lparr>year = 2024, weekNumber = 11\<rparr>"
  "pg_extract_week 1710144000000 = 11" "pg_extract_year 1710144000000 = 2024"
  by code_simp+

lemma ex_zero_submit:
  "client_reports_POST ex_empty 1710144000000 ''r1'' (Some ex_client) ''c1'' ex_zero_body
     = Inr ((ex_zero_stored, []), ex_empty\<lparr>reports := [ex_zero_stored]\<rparr>)"
  by (simp add: client_reports_POST_def ex_client_def userExists_def ex_empty_def ex_users_def
      ex_zero_parse ex_zero_data_def ex_week_2024_03_11 reports_insert_def
      set_report_week_and_year_def ex_zero_stored_def Let_def)

theorem zero_is_stored_as_null_witness:
  "SubmitReportSchema ex_zero_body = Some ex_zero_data
   \<and> reports (ex_empty\<lparr>reports := [ex_zero_stored]\<rparr>) = reports ex_empty @ [ex_zero_stored]
   \<and> report_get ex_zero_stored ''weight'' = None
   \<and> report_get ex_zero_stored ''cardio_days'' = None
   \<and> r_note ex_zero_stored = None
   \<and> trend_of ''weight'' (trends_GET (ex_empty\<lparr>reports := [ex_zero_stored]\<rparr>) (Some ex_client) ''c1'' None)
       = trend_of ''weight'' (trends_GET ex_empty (Some ex_client) ''c1'' None)
   \<and> client_reports_POST ex_empty 1710144000000 ''r1'' (Some ex_client) ''c1'' (JObj [])
       = client_reports_POST ex_empty 1710144000000 ''r1'' (Some ex_client) ''c1'' ex_zero_body"
proof -
  note T = zero_is_stored_as_null [OF ex_zero_parse ex_zero_submit]
  have w: "data_get ex_zero_data ''weight'' = Some 0" and c: "data_get ex_zero_data ''cardio_days'' = Some 0"
    and n: "d_note ex_zero_data = Some []"
    by (simp_all add: data_get_def ex_zero_data_def)
  have same: "omit_falsy ex_no_data = omit_falsy ex_zero_data"
    by (simp add: omit_falsy_def ex_no_data_def ex_zero_data_def)
  from T have 1: "reports (ex_empty\<lparr>reports := [ex_zero_stored]\<rparr>) = reports ex_empty @ [ex_zero_stored]"
    by (rule conjunct1)
  from T w have 2: "report_get ex_zero_stored ''weight'' = None"
    and 4: "trend_of ''weight'' (trends_GET (ex_empty\<lparr>reports := [ex_zero_stored]\<rparr>) (Some ex_client) ''c1'' None)
       = trend_of ''weight'' (trends_GET ex_empty (Some ex_client) ''c1'' None)"
    by blast+
  from T c have 3: "report_get ex_zero_stored ''cardio_days'' = None" by blast
  from T n have 5: "r_note ex_zero_stored = None" by blast
  from T ex_no_parse same
  have 6: "client_reports_POST ex_empty 1710144000000 ''r1'' (Some ex_client) ''c1'' (JObj [])
       = client_reports_POST ex_empty 1710144000000 ''r1'' (Some ex_client) ''c1'' ex_zero_body"
    by blast
  from ex_zero_parse 1 2 3 4 5 6 show ?thesis by blast
qed

end
